theory Spec2Isabelle
  imports Main "HOL-Library.Sublist"
begin

text \<open>
  A shallow embedding of the tool server of \<open>src/index.ts\<close>: the handler of tool calls
  and the six tools behind it, as functions from a state to an outcome and a new state.
  An outcome is the list of content items returned, or the error thrown. What the
  handlers take from Node, from zod, from the generation client and from the remote
  model is a parameter, the \<open>runtime\<close>. The resolution of the credential at start-up
  (\<open>loadConfig\<close>) is not part of the tool calls and is left out: the theorems hold from
  any state.
\<close>

section \<open>JavaScript values\<close>

text \<open>
  The tool arguments arrive as parsed JSON (\<open>request.params.arguments\<close>), and the
  source only casts them (\<open>as { prompt: string }\<close>), so a field may hold any JSON value
  or be missing. \<open>JUndefined\<close> is what reading a missing property gives. Numbers are
  the integers in JavaScript's safe range; strings are lists of characters.
\<close>

datatype jsval =
    JUndefined
  | JNull
  | JBool bool
  | JNum int
  | JStr string
  | JArr "jsval list"
  | JObj "(string \<times> jsval) list"

text \<open>ToBoolean, as used by \<open>if (x)\<close>, \<open>!x\<close> and \<open>x && y\<close>.\<close>

fun truthy :: "jsval \<Rightarrow> bool" where
  "truthy JUndefined = False"
| "truthy JNull = False"
| "truthy (JBool b) = b"
| "truthy (JNum n) = (n \<noteq> 0)"
| "truthy (JStr s) = (s \<noteq> [])"
| "truthy (JArr xs) = True"
| "truthy (JObj kvs) = True"

text \<open>Reading a property of a parsed JSON object: the own property, or \<open>undefined\<close>.\<close>

definition getProp :: "(string \<times> jsval) list \<Rightarrow> string \<Rightarrow> jsval" where
  "getProp kvs k = (case map_of kvs k of None \<Rightarrow> JUndefined | Some v \<Rightarrow> v)"

definition digit_char :: "nat \<Rightarrow> char" where
  "digit_char d = char_of (48 + d)"

fun show_nat :: "nat \<Rightarrow> string" where
  "show_nat n = (if n < 10 then [digit_char n] else show_nat (n div 10) @ [digit_char (n mod 10)])"

declare show_nat.simps [simp del]

definition show_int :: "int \<Rightarrow> string" where
  "show_int i = (if i < 0 then CHR ''-'' # show_nat (nat (- i)) else show_nat (nat i))"

text \<open>
  ToString, as used by a template literal \<open>`${x}`\<close>. \<open>None\<close> stands for the TypeError
  "Cannot convert object to primitive value", which a parsed JSON object raises when it
  has an own (hence non-callable) \<open>toString\<close> property. An array is joined with commas,
  \<open>null\<close> and \<open>undefined\<close> elements giving the empty string.
\<close>

fun js_ToString :: "jsval \<Rightarrow> string option"
  and js_join :: "jsval list \<Rightarrow> string option" where
  "js_ToString JUndefined = Some ''undefined''"
| "js_ToString JNull = Some ''null''"
| "js_ToString (JBool b) = Some (if b then ''true'' else ''false'')"
| "js_ToString (JNum n) = Some (show_int n)"
| "js_ToString (JStr s) = Some s"
| "js_ToString (JArr xs) = js_join xs"
| "js_ToString (JObj kvs) =
     (if map_of kvs ''toString'' = None then Some ''[object Object]'' else None)"
| "js_join [] = Some []"
| "js_join (x # xs) =
     (case (if x = JUndefined \<or> x = JNull then Some [] else js_ToString x) of
        None \<Rightarrow> None
      | Some s \<Rightarrow>
          (if xs = [] then Some s
           else (case js_join xs of None \<Rightarrow> None | Some r \<Rightarrow> Some (s @ '','' @ r))))"

text \<open>\<open>x.length\<close> for a value \<open>x\<close> that is neither \<open>null\<close> nor \<open>undefined\<close>.\<close>

fun js_length :: "jsval \<Rightarrow> jsval" where
  "js_length (JStr s) = JNum (int (length s))"
| "js_length (JArr xs) = JNum (int (length xs))"
| "js_length (JObj kvs) = getProp kvs ''length''"
| "js_length v = JUndefined"

section \<open>Errors\<close>

text \<open>
  \<open>ErrorCode\<close> and \<open>McpError\<close> are the SDK's. \<open>McpError c m\<close> is the error built by
  \<open>new McpError(c, m)\<close>; its \<open>.message\<close> is \<open>m\<close> behind the SDK's prefix
  \<open>MCP error <code>: \<close>. \<open>Error m\<close> is any other thrown \<open>Error\<close> with message \<open>m\<close>
  (a file-system error, an error of the generation client, a TypeError of the engine).
\<close>

datatype ErrorCode = ParseError | InvalidRequest | MethodNotFound | InvalidParams | InternalError

datatype exn = McpError ErrorCode string | Error string

fun code_number :: "ErrorCode \<Rightarrow> string" where
  "code_number ParseError = ''-32700''"
| "code_number InvalidRequest = ''-32600''"
| "code_number MethodNotFound = ''-32601''"
| "code_number InvalidParams = ''-32602''"
| "code_number InternalError = ''-32603''"

fun error_message :: "exn \<Rightarrow> string" where
  "error_message (McpError c m) = ''MCP error '' @ code_number c @ '': '' @ m"
| "error_message (Error m) = m"

text \<open>The engine's TypeErrors that the handlers can run into.\<close>

definition cannot_destructure :: "string \<Rightarrow> exn" where
  "cannot_destructure field =
     Error (''Cannot destructure property '' @ [CHR 0x27] @ field @ [CHR 0x27] @
            '' of '' @ [CHR 0x27] @ ''request.params.arguments'' @ [CHR 0x27] @
            '' as it is undefined.'')"

definition cannot_convert :: exn where
  "cannot_convert = Error ''Cannot convert object to primitive value''"

section \<open>Mime types\<close>

text \<open>
  \<open>path.extname\<close> of Node's POSIX \<open>path\<close> module: one backward scan of the path with
  the five variables of Node's implementation.
\<close>

record extname_vars =
  startDot :: int
  startPart :: int
  endIdx :: int
  matchedSlash :: bool
  preDotState :: int

fun extname_loop :: "string \<Rightarrow> nat \<Rightarrow> extname_vars \<Rightarrow> extname_vars" where
  "extname_loop path 0 v = v"
| "extname_loop path (Suc i) v =
     (if path ! i = CHR ''/'' then
        (if \<not> matchedSlash v then v\<lparr>startPart := int i + 1\<rparr>
         else extname_loop path i v)
      else
        (let v1 = (if endIdx v = - 1 then v\<lparr>matchedSlash := False, endIdx := int i + 1\<rparr> else v);
             v2 = (if path ! i = CHR ''.'' then
                     (if startDot v1 = - 1 then v1\<lparr>startDot := int i\<rparr>
                      else if preDotState v1 \<noteq> 1 then v1\<lparr>preDotState := 1\<rparr>
                      else v1)
                   else if startDot v1 \<noteq> - 1 then v1\<lparr>preDotState := - 1\<rparr>
                   else v1)
         in extname_loop path i v2))"

definition posix_extname :: "string \<Rightarrow> string" where
  "posix_extname path =
     (let v = extname_loop path (length path)
                \<lparr>startDot = - 1, startPart = 0, endIdx = - 1, matchedSlash = True, preDotState = 0\<rparr>
      in if startDot v = - 1 \<or> endIdx v = - 1 \<or> preDotState v = 0 \<or>
            (preDotState v = 1 \<and> startDot v = endIdx v - 1 \<and> startDot v = startPart v + 1)
         then []
         else take (nat (endIdx v - startDot v)) (drop (nat (startDot v)) path))"

text \<open>
  \<open>String.prototype.toLowerCase\<close> on the letters A to Z. No other character lower-cases
  to a letter of \<open>.jpg\<close>, \<open>.jpeg\<close>, \<open>.png\<close> or \<open>.webp\<close>, so the switch of \<open>getMimeType\<close>
  takes the same branch as under the full Unicode mapping.
\<close>

definition toLowerCase_char :: "char \<Rightarrow> char" where
  "toLowerCase_char c =
     (if (65::nat) \<le> of_char c \<and> of_char c \<le> (90::nat) then char_of (of_char c + (32::nat)) else c)"

definition toLowerCase :: "string \<Rightarrow> string" where
  "toLowerCase s = map toLowerCase_char s"

text \<open>
  \<open>getMimeType\<close>, with \<open>path.extname\<close> as a parameter: Node picks the POSIX or the
  Windows implementation by platform.
\<close>

definition getMimeType :: "(string \<Rightarrow> string) \<Rightarrow> string \<Rightarrow> string" where
  "getMimeType path_extname filePath =
     (let ext = toLowerCase (path_extname filePath)
      in if ext = ''.jpg'' \<or> ext = ''.jpeg'' then ''image/jpeg''
         else if ext = ''.png'' then ''image/png''
         else if ext = ''.webp'' then ''image/webp''
         else ''image/jpeg'')"

section \<open>The generation service\<close>

text \<open>
  The response of \<open>models.generateContent\<close>, with the optional fields of the client's
  types: \<open>candidates?\<close>, \<open>finishReason?\<close>, \<open>content?\<close>, \<open>parts?\<close>, \<open>text?\<close> (here \<open>partText\<close>),
  \<open>inlineData?\<close>, \<open>data?\<close>, \<open>mimeType?\<close>.
\<close>

record Blob =
  data :: "string option"
  mimeType :: "string option"

record Part =
  partText :: "string option"
  inlineData :: "Blob option"

record Content =
  parts :: "Part list option"

record Candidate =
  finishReason :: "string option"
  content :: "Content option"

record GenerateContentResponse =
  candidates :: "Candidate list option"

text \<open>The request: \<open>contents\<close> is the prompt itself, or one content of ordered parts.\<close>

datatype request_part = InlineData string string | TextPart jsval

datatype request_contents = Prompt jsval | Parts "request_part list"

record gen_request =
  model :: string
  contents :: request_contents

definition MODEL :: string where
  "MODEL = ''gemini-2.5-flash-image-preview''"

record GoogleGenAI =
  apiKey :: string
  httpBaseUrl :: "string option"

section \<open>Configuration, runtime and state\<close>

record Config =
  geminiApiKey :: string
  baseUrl :: "string option"

datatype ConfigSource = environment | config_file | not_configured

text \<open>
  What the program reads from its platform and its libraries without defining it: the
  process environment, Node's \<open>path\<close>, \<open>JSON.stringify\<close>, base64 coding, the URL parser
  behind zod's \<open>.url()\<close>, the clock, \<open>Math.random\<close>, the failures of the file system,
  and the remote model. \<open>iso_time n\<close> and \<open>random36 n\<close> are \<open>new Date().toISOString()\<close>
  and \<open>Math.random().toString(36)\<close> at the \<open>n\<close>-th time a file name is made;
  \<open>generateContent n\<close> answers the \<open>n\<close>-th request (\<open>Inl\<close> the message of the error it
  throws). \<open>str_positive s\<close> is \<open>s > 0\<close> for a string \<open>s\<close>; \<open>bad_path_message v\<close> is the
  message of the error raised when a value that is not a string is used as a path.
\<close>

record runtime =
  platform :: string
  cwd :: string
  homedir :: string
  env_GEMINI_BASE_URL :: "string option"
  path_join :: "string list \<Rightarrow> string"
  path_extname :: "string \<Rightarrow> string"
  url_ok :: "string \<Rightarrow> bool"
  json_stringify :: "Config \<Rightarrow> string"
  base64_encode :: "string \<Rightarrow> string"
  base64_decode :: "string \<Rightarrow> string"
  iso_time :: "nat \<Rightarrow> string"
  random36 :: "nat \<Rightarrow> string"
  str_positive :: "string \<Rightarrow> bool"
  bad_path_message :: "jsval \<Rightarrow> string"
  read_error :: "string \<Rightarrow> string option"
  write_error :: "string \<Rightarrow> string option"
  mkdir_error :: "string \<Rightarrow> string option"
  mtime_string :: "string \<Rightarrow> string"
  generateContent :: "nat \<Rightarrow> GoogleGenAI \<Rightarrow> gen_request \<Rightarrow> string + GenerateContentResponse"

text \<open>
  The fields of the \<open>NanoBananaMCP\<close> object, and the world it acts on: the files on
  disk, the number of file names made so far, and the requests handed to
  \<open>models.generateContent\<close>, each with the client it was made on.
\<close>

record state =
  genAI :: "GoogleGenAI option"
  config :: "Config option"
  lastImagePath :: "string option"
  configSource :: ConfigSource
  files :: "string \<Rightarrow> string option"
  tick :: nat
  calls :: "(GoogleGenAI \<times> gen_request) list"

text \<open>A tool call (\<open>request.params\<close>) and the content items of its result.\<close>

record CallToolRequest =
  name :: string
  arguments :: "(string \<times> jsval) list option"

datatype content_item = TextItem string | ImageItem string string

type_synonym 'a outcome = "(exn + 'a) \<times> state"

subsection \<open>File system\<close>

definition enoent :: "string \<Rightarrow> string \<Rightarrow> string" where
  "enoent syscall p =
     ''ENOENT: no such file or directory, '' @ syscall @ '' '' @ [CHR 0x27] @ p @ [CHR 0x27]"

text \<open>\<open>fs.access(p)\<close>: does the path exist.\<close>

definition fs_access :: "state \<Rightarrow> string \<Rightarrow> bool" where
  "fs_access st p = (files st p \<noteq> None)"

text \<open>
  \<open>fs.readFile(v)\<close>: the bytes, or the error thrown. The handlers infer the mime type
  of every file they read with \<open>path.extname\<close>, which rejects a value that is not a string;
  so whether Node rejects such a value as a path or reads it as a file descriptor, the
  handler's \<open>try\<close> block is left with an error, which is what \<open>Inl\<close> stands for here.
\<close>

definition fs_readFile :: "runtime \<Rightarrow> state \<Rightarrow> jsval \<Rightarrow> exn + string" where
  "fs_readFile rt st v =
     (case v of
        JStr p \<Rightarrow>
          (case files st p of
             None \<Rightarrow> Inl (Error (enoent ''open'' p))
           | Some bytes \<Rightarrow>
               (case read_error rt p of
                  Some m \<Rightarrow> Inl (Error m)
                | None \<Rightarrow> Inr bytes))
      | _ \<Rightarrow> Inl (Error (bad_path_message rt v)))"

text \<open>\<open>fs.writeFile(p, bytes)\<close>.\<close>

definition fs_writeFile :: "runtime \<Rightarrow> state \<Rightarrow> string \<Rightarrow> string \<Rightarrow> unit outcome" where
  "fs_writeFile rt st p bytes =
     (case write_error rt p of
        Some m \<Rightarrow> (Inl (Error m), st)
      | None \<Rightarrow> (Inr (), st\<lparr>files := (files st)(p \<mapsto> bytes)\<rparr>))"

subsection \<open>Helpers of the class\<close>

definition ensureConfigured :: "state \<Rightarrow> bool" where
  "ensureConfigured st = (config st \<noteq> None \<and> genAI st \<noteq> None)"

definition getImagesDirectory :: "runtime \<Rightarrow> string" where
  "getImagesDirectory rt =
     (if platform rt = ''win32'' then path_join rt [homedir rt, ''Documents'', ''nano-banana-images'']
      else if prefix ''/usr/'' (cwd rt) \<or> prefix ''/opt/'' (cwd rt) \<or> prefix ''/var/'' (cwd rt)
        then path_join rt [homedir rt, ''nano-banana-images'']
      else path_join rt [cwd rt, ''generated_imgs''])"

definition saveConfig :: "runtime \<Rightarrow> state \<Rightarrow> unit outcome" where
  "saveConfig rt st =
     (case config st of
        None \<Rightarrow> (Inr (), st)
      | Some cfg \<Rightarrow>
          fs_writeFile rt st (path_join rt [cwd rt, ''.nano-banana-config.json''])
            (json_stringify rt cfg))"

text \<open>\<open>s.replace(/[:.]/g, '-')\<close> and \<open>s.substring(2, 8)\<close>.\<close>

definition replace_colon_dot :: "string \<Rightarrow> string" where
  "replace_colon_dot s = map (\<lambda>c. if c = CHR '':'' \<or> c = CHR ''.'' then CHR ''-'' else c) s"

definition substring :: "nat \<Rightarrow> nat \<Rightarrow> string \<Rightarrow> string" where
  "substring i j s = take (j - i) (drop i s)"

definition image_file_name :: "runtime \<Rightarrow> string \<Rightarrow> nat \<Rightarrow> string" where
  "image_file_name rt kind n =
     kind @ ''-'' @ replace_colon_dot (iso_time rt n) @ ''-'' @ substring 2 8 (random36 rt n) @ ''.png''"

text \<open>\<open>xs.join(sep)\<close> on strings, and \<open>xs.map(f => `- ${f}`).join('\n')\<close>.\<close>

fun join :: "string \<Rightarrow> string list \<Rightarrow> string" where
  "join sep [] = []"
| "join sep [x] = x"
| "join sep (x # y # ys) = x @ sep @ join sep (y # ys)"

definition NL :: string where
  "NL = [CHR 0x0A]"

definition bullet_list :: "string list \<Rightarrow> string" where
  "bullet_list fs = join NL (map (\<lambda>f. ''- '' @ f) fs)"

section \<open>Texts\<close>

text \<open>The emoji of the status texts, as their UTF-8 bytes, and the double quote.\<close>

definition E_art :: string where "E_art = [CHR 0xF0, CHR 0x9F, CHR 0x8E, CHR 0xA8]"
definition E_folder :: string where "E_folder = [CHR 0xF0, CHR 0x9F, CHR 0x93, CHR 0x81]"
definition E_bulb :: string where "E_bulb = [CHR 0xF0, CHR 0x9F, CHR 0x92, CHR 0xA1]"
definition E_cycle :: string where "E_cycle = [CHR 0xF0, CHR 0x9F, CHR 0x94, CHR 0x84]"
definition E_clipboard :: string where "E_clipboard = [CHR 0xF0, CHR 0x9F, CHR 0x93, CHR 0x8B]"
definition E_check :: string where "E_check = [CHR 0xE2, CHR 0x9C, CHR 0x85]"
definition E_globe :: string where "E_globe = [CHR 0xF0, CHR 0x9F, CHR 0x8C, CHR 0x90]"
definition E_cross :: string where "E_cross = [CHR 0xE2, CHR 0x9D, CHR 0x8C]"
definition E_pin :: string where "E_pin = [CHR 0xF0, CHR 0x9F, CHR 0x93, CHR 0x8D]"
definition E_camera :: string where "E_camera = [CHR 0xF0, CHR 0x9F, CHR 0x93, CHR 0xB7]"
definition E_memo :: string where "E_memo = [CHR 0xF0, CHR 0x9F, CHR 0x93, CHR 0x9D]"
definition E_gold :: string where "E_gold = [CHR 0xF0, CHR 0x9F, CHR 0xA5, CHR 0x87]"
definition E_silver :: string where "E_silver = [CHR 0xF0, CHR 0x9F, CHR 0xA5, CHR 0x88]"
definition E_bronze :: string where "E_bronze = [CHR 0xF0, CHR 0x9F, CHR 0xA5, CHR 0x89]"
definition DQ :: string where "DQ = [CHR 0x22]"

definition not_configured_message :: string where
  "not_configured_message = ''Gemini API token not configured. Use configure_gemini_token first.''"

definition no_previous_image_message :: string where
  "no_previous_image_message =
     ''No previous image found. Please generate or edit an image first, '' @
     ''then use continue_editing for subsequent edits.''"

definition last_image_not_found_message :: "string \<Rightarrow> string" where
  "last_image_not_found_message p =
     ''Last image file not found at: '' @ p @ ''. Please generate a new image first.''"

section \<open>configure_gemini_token\<close>

text \<open>
  \<open>ConfigSchema.parse\<close>: zod collects the issues in the order of the schema's keys. A
  value that is not a string stops the checks of its key with zod's type message
  (\<open>Required\<close> for a missing one).
\<close>

fun zod_type :: "jsval \<Rightarrow> string" where
  "zod_type JUndefined = ''undefined''"
| "zod_type JNull = ''null''"
| "zod_type (JBool b) = ''boolean''"
| "zod_type (JNum n) = ''number''"
| "zod_type (JStr s) = ''string''"
| "zod_type (JArr xs) = ''array''"
| "zod_type (JObj kvs) = ''object''"

definition zod_string :: "jsval \<Rightarrow> (string \<Rightarrow> string list) \<Rightarrow> string list" where
  "zod_string v checks =
     (case v of
        JStr s \<Rightarrow> checks s
      | JUndefined \<Rightarrow> [''Required'']
      | _ \<Rightarrow> [''Expected string, received '' @ zod_type v])"

definition ConfigSchema_issues :: "runtime \<Rightarrow> jsval \<Rightarrow> jsval \<Rightarrow> string list" where
  "ConfigSchema_issues rt key url =
     zod_string key (\<lambda>s. if length s < 1 then [''Gemini API key is required''] else []) @
     (if url = JUndefined then []
      else zod_string url (\<lambda>s. if url_ok rt s then [] else [''Base URL must be a valid URL'']))"

text \<open>
  \<open>configData\<close> is \<open>{ geminiApiKey: apiKey }\<close>, with \<open>baseUrl\<close> added when it is truthy.
  When the schema accepts it, both values are strings and it is the new \<open>Config\<close>.
\<close>

definition ConfigSchema_parse :: "runtime \<Rightarrow> jsval \<Rightarrow> jsval \<Rightarrow> string list + Config" where
  "ConfigSchema_parse rt key url =
     (case ConfigSchema_issues rt key url of
        m # ms \<Rightarrow> Inl (m # ms)
      | [] \<Rightarrow>
          (case key of
             JStr k \<Rightarrow>
               (case url of
                  JStr u \<Rightarrow> Inr \<lparr>geminiApiKey = k, baseUrl = Some u\<rparr>
                | _ \<Rightarrow> Inr \<lparr>geminiApiKey = k, baseUrl = None\<rparr>)
           | _ \<Rightarrow> Inl []))"

definition configured_text :: "string option \<Rightarrow> string" where
  "configured_text url =
     E_check @ '' Gemini API token configured successfully! '' @
     ''You can now use nano-banana image generation features.'' @
     (case url of
        None \<Rightarrow> []
      | Some u \<Rightarrow> NL @ E_globe @ '' Custom base URL configured: '' @ u)"

definition configureGeminiToken :: "runtime \<Rightarrow> state \<Rightarrow> CallToolRequest \<Rightarrow> content_item list outcome" where
  "configureGeminiToken rt st request =
     (case arguments request of
        None \<Rightarrow> (Inl (cannot_destructure ''apiKey''), st)
      | Some args \<Rightarrow>
          (let apiKey = getProp args ''apiKey'';
               baseUrl = getProp args ''baseUrl''
           in case ConfigSchema_parse rt apiKey (if truthy baseUrl then baseUrl else JUndefined) of
                Inl issues \<Rightarrow>
                  (Inl (McpError InvalidParams
                          (''Invalid configuration: '' @
                           (case issues of [] \<Rightarrow> ''undefined'' | m # ms \<Rightarrow> m))), st)
              | Inr configData \<Rightarrow>
                  (let st1 = st\<lparr>config := Some configData,
                                 genAI := Some \<lparr>apiKey = geminiApiKey configData,
                                                httpBaseUrl = Config.baseUrl configData\<rparr>,
                                 configSource := config_file\<rparr>
                   in case saveConfig rt st1 of
                        (Inl e, st2) \<Rightarrow> (Inl e, st2)
                      | (Inr u, st2) \<Rightarrow>
                          (Inr [TextItem (configured_text (Config.baseUrl configData))], st2))))"

section \<open>Responses of the service\<close>

text \<open>
  The checks under "Validate response completeness", the same statements in
  \<open>generateImage\<close> and in \<open>editImage\<close>. \<open>!candidate.finishReason\<close> also holds for the
  empty string.
\<close>

definition validateResponse :: "GenerateContentResponse \<Rightarrow> exn + Candidate" where
  "validateResponse response =
     (case candidates response of
        None \<Rightarrow> Inl (McpError InternalError ''No candidates in response from Gemini API'')
      | Some [] \<Rightarrow> Inl (McpError InternalError ''No candidates in response from Gemini API'')
      | Some (candidate # others) \<Rightarrow>
          (case finishReason candidate of
             None \<Rightarrow>
               Inl (McpError InternalError
                      ''Response missing finish reason - generation may have been interrupted'')
           | Some r \<Rightarrow>
               if r = [] then
                 Inl (McpError InternalError
                        ''Response missing finish reason - generation may have been interrupted'')
               else if r \<noteq> ''STOP'' \<and> r \<noteq> ''MAX_TOKENS'' then
                 Inl (McpError InternalError (''Generation failed with finish reason: '' @ r))
               else Inr candidate))"

text \<open>\<open>candidate?.content?.parts\<close>: the parts the loops run over, none when a field is missing.\<close>

definition candidate_parts :: "Candidate \<Rightarrow> Part list" where
  "candidate_parts candidate =
     (case content candidate of
        None \<Rightarrow> []
      | Some c \<Rightarrow> (case parts c of None \<Rightarrow> [] | Some ps \<Rightarrow> ps))"

text \<open>The three variables the loops fill: \<open>textContent\<close>, \<open>content\<close> and \<open>savedFiles\<close>.\<close>

record part_acc =
  textContent :: string
  contentItems :: "content_item list"
  savedFiles :: "string list"

definition add_text :: "Part \<Rightarrow> part_acc \<Rightarrow> part_acc" where
  "add_text part acc =
     (case partText part of
        None \<Rightarrow> acc
      | Some t \<Rightarrow> if t \<noteq> [] then acc\<lparr>textContent := textContent acc @ t\<rparr> else acc)"

text \<open>\<open>blob.data\<close> when it is truthy, and \<open>blob.mimeType || "image/png"\<close>.\<close>

definition blob_data :: "Blob \<Rightarrow> string option" where
  "blob_data blob = (case data blob of None \<Rightarrow> None | Some d \<Rightarrow> if d = [] then None else Some d)"

definition blob_mime :: "Blob \<Rightarrow> string" where
  "blob_mime blob = (case mimeType blob of None \<Rightarrow> ''image/png'' | Some m \<Rightarrow> if m = [] then ''image/png'' else m)"

text \<open>
  Writing one returned image: the file is written, its path is pushed on \<open>savedFiles\<close>
  and becomes \<open>lastImagePath\<close>, and the image is pushed on \<open>content\<close>.
\<close>

definition save_image :: "runtime \<Rightarrow> string \<Rightarrow> Blob \<Rightarrow> string \<Rightarrow> part_acc \<Rightarrow> state \<Rightarrow> part_acc outcome" where
  "save_image rt filePath blob d acc st =
     (case fs_writeFile rt st filePath (base64_decode rt d) of
        (Inl e, st1) \<Rightarrow> (Inl e, st1)
      | (Inr u, st1) \<Rightarrow>
          (Inr (acc\<lparr>savedFiles := savedFiles acc @ [filePath],
                     contentItems := contentItems acc @ [ImageItem d (blob_mime blob)]\<rparr>),
           st1\<lparr>lastImagePath := Some filePath\<rparr>))"

text \<open>The loop of \<open>generateImage\<close>: a file name is made only for a part with image data.\<close>

fun generate_parts :: "runtime \<Rightarrow> string \<Rightarrow> Part list \<Rightarrow> part_acc \<Rightarrow> state \<Rightarrow> part_acc outcome" where
  "generate_parts rt imagesDir [] acc st = (Inr acc, st)"
| "generate_parts rt imagesDir (part # rest) acc st =
     (case inlineData part of
        None \<Rightarrow> generate_parts rt imagesDir rest (add_text part acc) st
      | Some blob \<Rightarrow>
          (case blob_data blob of
             None \<Rightarrow> generate_parts rt imagesDir rest (add_text part acc) st
           | Some d \<Rightarrow>
               (case save_image rt (path_join rt [imagesDir, image_file_name rt ''generated'' (tick st)])
                       blob d (add_text part acc) (st\<lparr>tick := Suc (tick st)\<rparr>) of
                  (Inl e, st1) \<Rightarrow> (Inl e, st1)
                | (Inr acc1, st1) \<Rightarrow> generate_parts rt imagesDir rest acc1 st1)))"

text \<open>The loop of \<open>editImage\<close>: a file name is made for every part with \<open>inlineData\<close>.\<close>

fun edit_parts :: "runtime \<Rightarrow> string \<Rightarrow> Part list \<Rightarrow> part_acc \<Rightarrow> state \<Rightarrow> part_acc outcome" where
  "edit_parts rt imagesDir [] acc st = (Inr acc, st)"
| "edit_parts rt imagesDir (part # rest) acc st =
     (case inlineData part of
        None \<Rightarrow> edit_parts rt imagesDir rest (add_text part acc) st
      | Some blob \<Rightarrow>
          (case blob_data blob of
             None \<Rightarrow> edit_parts rt imagesDir rest (add_text part acc) (st\<lparr>tick := Suc (tick st)\<rparr>)
           | Some d \<Rightarrow>
               (case save_image rt (path_join rt [imagesDir, image_file_name rt ''edited'' (tick st)])
                       blob d (add_text part acc) (st\<lparr>tick := Suc (tick st)\<rparr>) of
                  (Inl e, st1) \<Rightarrow> (Inl e, st1)
                | (Inr acc1, st1) \<Rightarrow> edit_parts rt imagesDir rest acc1 st1)))"

text \<open>
  Sending a request: it is recorded, and the service answers or throws. With no client
  (\<open>this.genAI\<close> is \<open>null\<close>) reading \<open>.models\<close> throws.
\<close>

definition call_generateContent :: "runtime \<Rightarrow> state \<Rightarrow> request_contents \<Rightarrow> GenerateContentResponse outcome" where
  "call_generateContent rt st cts =
     (case genAI st of
        None \<Rightarrow> (Inl (Error ''Cannot read properties of null (reading models)''), st)
      | Some client \<Rightarrow>
          (let req = \<lparr>model = MODEL, contents = cts\<rparr>;
               st1 = st\<lparr>calls := calls st @ [(client, req)]\<rparr>
           in case generateContent rt (length (calls st)) client req of
                Inl m \<Rightarrow> (Inl (Error m), st1)
              | Inr response \<Rightarrow> (Inr response, st1)))"

section \<open>generate_image\<close>

definition generate_status_text :: "string \<Rightarrow> part_acc \<Rightarrow> string" where
  "generate_status_text prompt acc =
     E_art @ '' Image generated with nano-banana (Gemini 2.5 Flash Image)!'' @ NL @ NL @
     ''Prompt: '' @ DQ @ prompt @ DQ @
     (if textContent acc \<noteq> [] then NL @ NL @ ''Description: '' @ textContent acc else []) @
     (if length (savedFiles acc) > 0
      then NL @ NL @ E_folder @ '' Image saved to:'' @ NL @ bullet_list (savedFiles acc)
      else NL @ NL @ ''Note: No image was generated. The model may have returned only text.'' @
           NL @ NL @ E_bulb @ '' Tip: Try running the command again - '' @
           ''sometimes the first call needs to warm up the model.'')"

text \<open>The body of the \<open>try\<close> block of \<open>generateImage\<close>.\<close>

definition generateImage_try :: "runtime \<Rightarrow> state \<Rightarrow> jsval \<Rightarrow> content_item list outcome" where
  "generateImage_try rt st prompt =
     (case call_generateContent rt st (Prompt prompt) of
        (Inl e, st1) \<Rightarrow> (Inl e, st1)
      | (Inr response, st1) \<Rightarrow>
          (case validateResponse response of
             Inl e \<Rightarrow> (Inl e, st1)
           | Inr candidate \<Rightarrow>
               (case mkdir_error rt (getImagesDirectory rt) of
                  Some m \<Rightarrow> (Inl (Error m), st1)
                | None \<Rightarrow>
                    (case generate_parts rt (getImagesDirectory rt) (candidate_parts candidate)
                            \<lparr>textContent = [], contentItems = [], savedFiles = []\<rparr> st1 of
                       (Inl e, st2) \<Rightarrow> (Inl e, st2)
                     | (Inr acc, st2) \<Rightarrow>
                         (case js_ToString prompt of
                            None \<Rightarrow> (Inl cannot_convert, st2)
                          | Some p \<Rightarrow>
                              (Inr (TextItem (generate_status_text p acc) # contentItems acc), st2))))))"

definition generateImage :: "runtime \<Rightarrow> state \<Rightarrow> CallToolRequest \<Rightarrow> content_item list outcome" where
  "generateImage rt st request =
     (if \<not> ensureConfigured st then (Inl (McpError InvalidRequest not_configured_message), st)
      else
        (case arguments request of
           None \<Rightarrow> (Inl (cannot_destructure ''prompt''), st)
         | Some args \<Rightarrow>
             (case generateImage_try rt st (getProp args ''prompt'') of
                (Inl e, st1) \<Rightarrow>
                  (Inl (McpError InternalError (''Failed to generate image: '' @ error_message e)), st1)
              | (Inr result, st1) \<Rightarrow> (Inr result, st1))))"

section \<open>edit_image\<close>

text \<open>
  \<open>v > 0\<close> for the value \<open>v\<close> of a \<open>.length\<close>, and
  \<open>referenceImages && referenceImages.length > 0\<close>. An object is compared through its
  primitive value, which a parsed JSON object has unless it has an own \<open>toString\<close>.
\<close>

fun js_gt_zero :: "runtime \<Rightarrow> jsval \<Rightarrow> exn + bool" where
  "js_gt_zero rt JUndefined = Inr False"
| "js_gt_zero rt JNull = Inr False"
| "js_gt_zero rt (JBool b) = Inr b"
| "js_gt_zero rt (JNum n) = Inr (0 < n)"
| "js_gt_zero rt (JStr s) = Inr (str_positive rt s)"
| "js_gt_zero rt (JArr xs) =
     (case js_join xs of None \<Rightarrow> Inl cannot_convert | Some s \<Rightarrow> Inr (str_positive rt s))"
| "js_gt_zero rt (JObj kvs) =
     (if map_of kvs ''toString'' = None then Inr False else Inl cannot_convert)"

definition hasReferenceImages :: "runtime \<Rightarrow> jsval \<Rightarrow> exn + bool" where
  "hasReferenceImages rt referenceImages =
     (if truthy referenceImages then js_gt_zero rt (js_length referenceImages) else Inr False)"

text \<open>\<open>for (const refPath of referenceImages)\<close>: the elements of an array, the characters of a string.\<close>

fun js_iterate :: "jsval \<Rightarrow> exn + jsval list" where
  "js_iterate (JArr xs) = Inr xs"
| "js_iterate (JStr s) = Inr (map (\<lambda>c. JStr [c]) s)"
| "js_iterate v = Inl (Error ''referenceImages is not iterable'')"

text \<open>
  The body of the loop over the reference images, inside its own \<open>try\<close>: \<open>None\<close> when
  reading the file or inferring its mime type throws, and the loop continues.
\<close>

definition loadReference :: "runtime \<Rightarrow> state \<Rightarrow> jsval \<Rightarrow> request_part option" where
  "loadReference rt st refPath =
     (case fs_readFile rt st refPath of
        Inl e \<Rightarrow> None
      | Inr refBuffer \<Rightarrow>
          (case refPath of
             JStr p \<Rightarrow> Some (InlineData (base64_encode rt refBuffer) (getMimeType (path_extname rt) p))
           | _ \<Rightarrow> None))"

text \<open>The parts of the request: the main image, the reference images that load, the prompt.\<close>

definition prepareImageParts :: "runtime \<Rightarrow> state \<Rightarrow> jsval \<Rightarrow> jsval \<Rightarrow> jsval \<Rightarrow> exn + request_part list" where
  "prepareImageParts rt st imagePath prompt referenceImages =
     (case fs_readFile rt st imagePath of
        Inl e \<Rightarrow> Inl e
      | Inr imageBuffer \<Rightarrow>
          (case imagePath of
             JStr p \<Rightarrow>
               (case hasReferenceImages rt referenceImages of
                  Inl e \<Rightarrow> Inl e
                | Inr has \<Rightarrow>
                    if has then
                      (case js_iterate referenceImages of
                         Inl e \<Rightarrow> Inl e
                       | Inr refs \<Rightarrow>
                           Inr (InlineData (base64_encode rt imageBuffer) (getMimeType (path_extname rt) p) #
                                List.map_filter (loadReference rt st) refs @ [TextPart prompt]))
                    else
                      Inr [InlineData (base64_encode rt imageBuffer) (getMimeType (path_extname rt) p),
                           TextPart prompt])
           | _ \<Rightarrow> Inl (Error (bad_path_message rt imagePath))))"

text \<open>\<open>referenceImages.map(f => `- ${f}`).join('\n')\<close> behind its heading, when there are any.\<close>

definition reference_images_text :: "runtime \<Rightarrow> jsval \<Rightarrow> exn + string" where
  "reference_images_text rt referenceImages =
     (case hasReferenceImages rt referenceImages of
        Inl e \<Rightarrow> Inl e
      | Inr has \<Rightarrow>
          if has then
            (case referenceImages of
               JArr xs \<Rightarrow>
                 (case those (map js_ToString xs) of
                    None \<Rightarrow> Inl cannot_convert
                  | Some fs \<Rightarrow> Inr (NL @ NL @ ''Reference images used:'' @ NL @ bullet_list fs))
             | _ \<Rightarrow> Inl (Error ''referenceImages.map is not a function''))
          else Inr [])"

definition edit_status_text :: "runtime \<Rightarrow> jsval \<Rightarrow> jsval \<Rightarrow> jsval \<Rightarrow> part_acc \<Rightarrow> exn + string" where
  "edit_status_text rt imagePath prompt referenceImages acc =
     (case js_ToString imagePath of
        None \<Rightarrow> Inl cannot_convert
      | Some original \<Rightarrow>
          (case js_ToString prompt of
             None \<Rightarrow> Inl cannot_convert
           | Some p \<Rightarrow>
               (case reference_images_text rt referenceImages of
                  Inl e \<Rightarrow> Inl e
                | Inr refs \<Rightarrow>
                    Inr (E_art @ '' Image edited with nano-banana!'' @ NL @ NL @
                         ''Original: '' @ original @ NL @
                         ''Edit prompt: '' @ DQ @ p @ DQ @
                         refs @
                         (if textContent acc \<noteq> [] then NL @ NL @ ''Description: '' @ textContent acc
                          else []) @
                         (if length (savedFiles acc) > 0
                          then NL @ NL @ E_folder @ '' Edited image saved to:'' @ NL @
                               bullet_list (savedFiles acc) @
                               NL @ NL @ E_bulb @ '' View the edited image by:'' @
                               NL @ ''1. Opening the file at the path above'' @
                               NL @ ''2. Clicking on '' @ DQ @ ''Called edit_image'' @ DQ @
                               '' in Cursor to expand the MCP call details'' @
                               NL @ NL @ E_cycle @ '' To continue editing, use: continue_editing'' @
                               NL @ E_clipboard @ '' To check current image info, use: get_last_image_info''
                          else NL @ NL @ ''Note: No edited image was generated.'' @
                               NL @ NL @ E_bulb @ '' Tip: Try running the command again - '' @
                               ''sometimes the first call needs to warm up the model.'')))))"

text \<open>The body of the \<open>try\<close> block of \<open>editImage\<close>.\<close>

definition editImage_try :: "runtime \<Rightarrow> state \<Rightarrow> jsval \<Rightarrow> jsval \<Rightarrow> jsval \<Rightarrow> content_item list outcome" where
  "editImage_try rt st imagePath prompt referenceImages =
     (case prepareImageParts rt st imagePath prompt referenceImages of
        Inl e \<Rightarrow> (Inl e, st)
      | Inr imageParts \<Rightarrow>
          (case call_generateContent rt st (Parts imageParts) of
             (Inl e, st1) \<Rightarrow> (Inl e, st1)
           | (Inr response, st1) \<Rightarrow>
               (case validateResponse response of
                  Inl e \<Rightarrow> (Inl e, st1)
                | Inr candidate \<Rightarrow>
                    (case mkdir_error rt (getImagesDirectory rt) of
                       Some m \<Rightarrow> (Inl (Error m), st1)
                     | None \<Rightarrow>
                         (case edit_parts rt (getImagesDirectory rt) (candidate_parts candidate)
                                 \<lparr>textContent = [], contentItems = [], savedFiles = []\<rparr> st1 of
                            (Inl e, st2) \<Rightarrow> (Inl e, st2)
                          | (Inr acc, st2) \<Rightarrow>
                              (case edit_status_text rt imagePath prompt referenceImages acc of
                                 Inl e \<Rightarrow> (Inl e, st2)
                               | Inr statusText \<Rightarrow>
                                   (Inr (TextItem statusText # contentItems acc), st2)))))))"

definition editImage :: "runtime \<Rightarrow> state \<Rightarrow> CallToolRequest \<Rightarrow> content_item list outcome" where
  "editImage rt st request =
     (if \<not> ensureConfigured st then (Inl (McpError InvalidRequest not_configured_message), st)
      else
        (case arguments request of
           None \<Rightarrow> (Inl (cannot_destructure ''imagePath''), st)
         | Some args \<Rightarrow>
             (case editImage_try rt st (getProp args ''imagePath'') (getProp args ''prompt'')
                     (getProp args ''referenceImages'') of
                (Inl e, st1) \<Rightarrow>
                  (Inl (McpError InternalError (''Failed to edit image: '' @ error_message e)), st1)
              | (Inr result, st1) \<Rightarrow> (Inr result, st1))))"

section \<open>continue_editing\<close>

text \<open>\<open>this.lastImagePath\<close> when it is truthy: neither \<open>null\<close> nor the empty string.\<close>

definition last_image :: "state \<Rightarrow> string option" where
  "last_image st =
     (case lastImagePath st of None \<Rightarrow> None | Some p \<Rightarrow> if p = [] then None else Some p)"

definition continueEditing :: "runtime \<Rightarrow> state \<Rightarrow> CallToolRequest \<Rightarrow> content_item list outcome" where
  "continueEditing rt st request =
     (if \<not> ensureConfigured st then (Inl (McpError InvalidRequest not_configured_message), st)
      else
        (case last_image st of
           None \<Rightarrow> (Inl (McpError InvalidRequest no_previous_image_message), st)
         | Some p \<Rightarrow>
             (case arguments request of
                None \<Rightarrow> (Inl (cannot_destructure ''prompt''), st)
              | Some args \<Rightarrow>
                  if \<not> fs_access st p
                  then (Inl (McpError InvalidRequest (last_image_not_found_message p)), st)
                  else editImage rt st
                         \<lparr>name = ''edit_image'',
                          arguments = Some [(''imagePath'', JStr p),
                                            (''prompt'', getProp args ''prompt''),
                                            (''referenceImages'', getProp args ''referenceImages'')]\<rparr>)))"

section \<open>The two status tools\<close>

definition configuration_help :: string where
  "configuration_help =
     NL @ NL @ E_memo @ '' Configuration options (in priority order):'' @
     NL @ ''1. '' @ E_gold @ '' MCP client environment variables (Recommended)'' @
     NL @ ''   - GEMINI_API_KEY (required)'' @
     NL @ ''   - GEMINI_BASE_URL (optional, for custom endpoints)'' @
     NL @ ''2. '' @ E_silver @ '' System environment variables: GEMINI_API_KEY and GEMINI_BASE_URL'' @
     NL @ ''3. '' @ E_bronze @ '' Use configure_gemini_token tool'' @
     NL @ NL @ E_bulb @ '' For the most secure setup, add this to your MCP configuration:'' @
     NL @ DQ @ ''env'' @ DQ @ '': { '' @
     NL @ ''  '' @ DQ @ ''GEMINI_API_KEY'' @ DQ @ '': '' @ DQ @ ''your-api-key-here'' @ DQ @ '','' @
     NL @ ''  '' @ DQ @ ''GEMINI_BASE_URL'' @ DQ @ '': '' @ DQ @
          ''https://custom-endpoint.example.com'' @ DQ @ '' '' @
     NL @ ''}''"

definition source_info :: "runtime \<Rightarrow> ConfigSource \<Rightarrow> string" where
  "source_info rt src =
     (case src of
        environment \<Rightarrow>
          NL @ E_pin @ '' Source: Environment variables (GEMINI_API_KEY'' @
          (case env_GEMINI_BASE_URL rt of
             None \<Rightarrow> []
           | Some u \<Rightarrow> if u \<noteq> [] then '' + GEMINI_BASE_URL'' else []) @
          '')'' @ NL @ E_bulb @ '' This is the most secure configuration method.''
      | config_file \<Rightarrow>
          NL @ E_pin @ '' Source: Local configuration file (.nano-banana-config.json)'' @
          NL @ E_bulb @ '' Consider using environment variables for better security.''
      | not_configured \<Rightarrow> [])"

definition getConfigurationStatus :: "runtime \<Rightarrow> state \<Rightarrow> content_item list outcome" where
  "getConfigurationStatus rt st =
     (if config st \<noteq> None \<and> genAI st \<noteq> None then
        (Inr [TextItem
                (E_check @ '' Gemini API token is configured and ready to use'' @
                 (case config st of
                    None \<Rightarrow> []
                  | Some cfg \<Rightarrow>
                      (case baseUrl cfg of
                         None \<Rightarrow> []
                       | Some u \<Rightarrow> if u \<noteq> [] then NL @ E_globe @ '' Custom base URL: '' @ u else [])) @
                 source_info rt (configSource st))], st)
      else
        (Inr [TextItem (E_cross @ '' Gemini API token is not configured'' @ configuration_help)], st))"

text \<open>\<open>Math.round(stats.size / 1024)\<close> rounds a half up.\<close>

definition size_kb :: "nat \<Rightarrow> nat" where
  "size_kb n = (n + 512) div 1024"

definition getLastImageInfo :: "runtime \<Rightarrow> state \<Rightarrow> content_item list outcome" where
  "getLastImageInfo rt st =
     (case last_image st of
        None \<Rightarrow>
          (Inr [TextItem
                  (E_camera @ '' No previous image found.'' @ NL @ NL @
                   ''Please generate or edit an image first, '' @
                   ''then this command will show information about your last image.'')], st)
      | Some p \<Rightarrow>
          (case files st p of
             Some bytes \<Rightarrow>
               (Inr [TextItem
                       (E_camera @ '' Last Image Information:'' @ NL @ NL @
                        ''Path: '' @ p @ NL @
                        ''File Size: '' @ show_nat (size_kb (length bytes)) @ '' KB'' @ NL @
                        ''Last Modified: '' @ mtime_string rt p @ NL @ NL @
                        E_bulb @ '' Use continue_editing to make further changes to this image.'')], st)
           | None \<Rightarrow>
               (Inr [TextItem
                       (E_camera @ '' Last Image Information:'' @ NL @ NL @
                        ''Path: '' @ p @ NL @
                        ''Status: '' @ E_cross @ '' File not found'' @ NL @ NL @
                        E_bulb @ '' The image file may have been moved or deleted. '' @
                        ''Please generate a new image.'')], st)))"

section \<open>The dispatcher\<close>

text \<open>
  The handler of \<open>CallToolRequestSchema\<close>: the switch on the tool name inside a \<open>try\<close>
  whose \<open>catch\<close> passes an \<open>McpError\<close> on and wraps anything else.
\<close>

definition callTool_switch :: "runtime \<Rightarrow> state \<Rightarrow> CallToolRequest \<Rightarrow> content_item list outcome" where
  "callTool_switch rt st request =
     (if name request = ''configure_gemini_token'' then configureGeminiToken rt st request
      else if name request = ''generate_image'' then generateImage rt st request
      else if name request = ''edit_image'' then editImage rt st request
      else if name request = ''get_configuration_status'' then getConfigurationStatus rt st
      else if name request = ''continue_editing'' then continueEditing rt st request
      else if name request = ''get_last_image_info'' then getLastImageInfo rt st
      else (Inl (McpError MethodNotFound (''Unknown tool: '' @ name request)), st))"

definition callTool :: "runtime \<Rightarrow> state \<Rightarrow> CallToolRequest \<Rightarrow> content_item list outcome" where
  "callTool rt st request =
     (case callTool_switch rt st request of
        (Inl (McpError c m), st1) \<Rightarrow> (Inl (McpError c m), st1)
      | (Inl (Error m), st1) \<Rightarrow>
          (Inl (McpError InternalError (''Tool execution failed: '' @ m)), st1)
      | (Inr result, st1) \<Rightarrow> (Inr result, st1))"

section \<open>Shapes of results\<close>

fun is_image :: "content_item \<Rightarrow> bool" where
  "is_image (ImageItem d m) = True"
| "is_image (TextItem t) = False"

text \<open>A status text first, then images only.\<close>

definition text_first :: "content_item list \<Rightarrow> bool" where
  "text_first items = (case items of TextItem t # rest \<Rightarrow> list_all is_image rest | _ \<Rightarrow> False)"

section \<open>A concrete runtime\<close>

text \<open>
  One runtime and a few states on which the definitions can be evaluated: a POSIX
  machine whose generation client rejects missing contents and whose service answers
  every other request with one text part and one image.
\<close>

definition stub_response :: GenerateContentResponse where
  "stub_response =
     \<lparr>candidates = Some
        [\<lparr>finishReason = Some ''STOP'',
          content = Some \<lparr>parts = Some
            [\<lparr>partText = Some ''A circle.'', inlineData = None\<rparr>,
             \<lparr>partText = None,
              inlineData = Some \<lparr>data = Some ''aGk='', mimeType = Some ''image/png''\<rparr>\<rparr>]\<rparr>\<rparr>]\<rparr>"

definition stub_runtime :: runtime where
  "stub_runtime =
     \<lparr>platform = ''linux'',
      cwd = ''/work'',
      homedir = ''/home/u'',
      env_GEMINI_BASE_URL = None,
      path_join = join ''/'',
      path_extname = posix_extname,
      url_ok = prefix ''https://'',
      json_stringify =
        (\<lambda>c. ''{ geminiApiKey: '' @ geminiApiKey c @
              (case baseUrl c of None \<Rightarrow> [] | Some u \<Rightarrow> '', baseUrl: '' @ u) @ '' }''),
      base64_encode = (\<lambda>b. b),
      base64_decode = (\<lambda>d. d),
      iso_time = (\<lambda>n. ''2025-01-01T00:00:00.000Z''),
      random36 = (\<lambda>n. ''0.k3x9q2ab''),
      str_positive = (\<lambda>s. False),
      bad_path_message = (\<lambda>v. ''The path argument must be of type string''),
      read_error = (\<lambda>p. None),
      write_error = (\<lambda>p. None),
      mkdir_error = (\<lambda>p. None),
      mtime_string = (\<lambda>p. ''1/1/2025, 12:00:00 AM''),
      generateContent =
        (\<lambda>n c r. if contents r = Prompt JUndefined then Inl ''contents are required''
                 else Inr stub_response)\<rparr>"

definition stub_client :: GoogleGenAI where
  "stub_client = \<lparr>apiKey = ''key'', httpBaseUrl = None\<rparr>"

text \<open>The object as the constructor leaves it, on an empty disk.\<close>

definition fresh_state :: state where
  "fresh_state =
     \<lparr>genAI = None, config = None, lastImagePath = None, configSource = not_configured,
      files = Map.empty, tick = 0, calls = []\<rparr>"

text \<open>A configured object, with two images on disk.\<close>

definition configured_state :: state where
  "configured_state =
     \<lparr>genAI = Some stub_client,
      config = Some \<lparr>geminiApiKey = ''key'', baseUrl = None\<rparr>,
      lastImagePath = None,
      configSource = config_file,
      files = [''/work/cat.png'' \<mapsto> ''bytes of the cat'',
               ''/work/style.webp'' \<mapsto> ''bytes of the style''],
      tick = 0,
      calls = []\<rparr>"


text \<open>A configured object whose last image is on disk.\<close>

definition session_state :: state where
  "session_state = configured_state\<lparr>lastImagePath := Some ''/work/cat.png''\<rparr>"

text \<open>The stub runtime with a service that answers every request with a given response.\<close>

definition answering :: "GenerateContentResponse \<Rightarrow> runtime" where
  "answering response = stub_runtime\<lparr>generateContent := (\<lambda>n c r. Inr response)\<rparr>"

section \<open>Mime-type inference\<close>

lemma toLowerCase_examples:
  "toLowerCase ''.JPG'' = ''.jpg''" "toLowerCase ''.jpeg'' = ''.jpeg''"
  "toLowerCase ''.PNG'' = ''.png''" "toLowerCase ''.Webp'' = ''.webp''"
  "toLowerCase ''.gif'' = ''.gif''" "toLowerCase [] = []"
  by code_simp+

lemma posix_extname_examples:
  "posix_extname ''/a/b.JPG'' = ''.JPG''" "posix_extname ''b.jpeg'' = ''.jpeg''"
  "posix_extname ''photo.PNG'' = ''.PNG''" "posix_extname ''x.y.Webp'' = ''.Webp''"
  "posix_extname ''anim.gif'' = ''.gif''" "posix_extname ''/a.d/README'' = []"
  by code_simp+

text \<open>
  C6, as stated: the mime type is image/jpeg for .jpg and .jpeg, image/png for .png,
  image/webp for .webp, and image/jpeg for any other extension. The extension of
  \<open>photo.PNG\<close> is \<open>.PNG\<close>, which is none of the four, and the mime type is image/png:
  the source lower-cases the extension before the switch.
\<close>

theorem getMimeType_other_extension_counterexample:
  "posix_extname ''photo.PNG'' = ''.PNG'' \<and>
   ''.PNG'' \<noteq> ''.jpg'' \<and> ''.PNG'' \<noteq> ''.jpeg'' \<and> ''.PNG'' \<noteq> ''.png'' \<and> ''.PNG'' \<noteq> ''.webp'' \<and>
   getMimeType posix_extname ''photo.PNG'' = ''image/png'' \<and>
   getMimeType posix_extname ''photo.PNG'' \<noteq> ''image/jpeg''"
  by (simp add: posix_extname_examples getMimeType_def toLowerCase_examples)

text \<open>
  C6, amended: for every path, with the extension compared after lower-casing, the mime
  type is image/jpeg for .jpg and .jpeg, image/png for .png, image/webp for .webp, and
  image/jpeg for anything else, the empty extension included. This holds for whatever
  \<open>path.extname\<close> returns.
\<close>

theorem getMimeType_by_lowercased_extension:
  "(toLowerCase (ext p) = ''.jpg'' \<or> toLowerCase (ext p) = ''.jpeg''
      \<longrightarrow> getMimeType ext p = ''image/jpeg'') \<and>
   (toLowerCase (ext p) = ''.png'' \<longrightarrow> getMimeType ext p = ''image/png'') \<and>
   (toLowerCase (ext p) = ''.webp'' \<longrightarrow> getMimeType ext p = ''image/webp'') \<and>
   (toLowerCase (ext p) \<noteq> ''.jpg'' \<and> toLowerCase (ext p) \<noteq> ''.jpeg'' \<and>
    toLowerCase (ext p) \<noteq> ''.png'' \<and> toLowerCase (ext p) \<noteq> ''.webp''
      \<longrightarrow> getMimeType ext p = ''image/jpeg'')"
  by (simp add: getMimeType_def)

theorem getMimeType_by_lowercased_extension_witness:
  "getMimeType posix_extname ''/a/b.JPG'' = ''image/jpeg'' \<and>
   getMimeType posix_extname ''b.jpeg'' = ''image/jpeg'' \<and>
   getMimeType posix_extname ''photo.PNG'' = ''image/png'' \<and>
   getMimeType posix_extname ''x.y.Webp'' = ''image/webp'' \<and>
   getMimeType posix_extname ''anim.gif'' = ''image/jpeg'' \<and>
   getMimeType posix_extname ''/a.d/README'' = ''image/jpeg''"
  using getMimeType_by_lowercased_extension [of posix_extname "''/a/b.JPG''"]
        getMimeType_by_lowercased_extension [of posix_extname "''b.jpeg''"]
        getMimeType_by_lowercased_extension [of posix_extname "''photo.PNG''"]
        getMimeType_by_lowercased_extension [of posix_extname "''x.y.Webp''"]
        getMimeType_by_lowercased_extension [of posix_extname "''anim.gif''"]
        getMimeType_by_lowercased_extension [of posix_extname "''/a.d/README''"]
  by (simp add: posix_extname_examples toLowerCase_examples)

section \<open>The dispatcher passes an McpError on\<close>

lemma callTool_wrap_McpError:
  "callTool_switch rt st request = (Inl (McpError c m), st') \<Longrightarrow>
   callTool rt st request = (Inl (McpError c m), st')"
  by (simp add: callTool_def)


lemma callTool_configure:
  "name request = ''configure_gemini_token'' \<Longrightarrow>
   callTool_switch rt st request = configureGeminiToken rt st request"
  by (simp add: callTool_switch_def)

section \<open>Operations without a credential\<close>

lemma not_configured_sublist: "sublist ''not configured'' not_configured_message"
proof -
  have "not_configured_message = ''Gemini API token '' @ ''not configured'' @ ''. Use configure_gemini_token first.''"
    by (simp add: not_configured_message_def)
  then show ?thesis
    by (metis sublist_appendI)
qed

text \<open>
  C4: whenever \<open>generate_image\<close>, \<open>edit_image\<close> or \<open>continue_editing\<close> is invoked while
  no credential is configured, the call fails with InvalidRequest and the not-configured
  message, and nothing changes: in particular no request is sent to the service.
\<close>

theorem not_configured_is_invalid_request:
  assumes "\<not> ensureConfigured st"
    and "name request = ''generate_image'' \<or> name request = ''edit_image'' \<or>
         name request = ''continue_editing''"
  shows "callTool rt st request = (Inl (McpError InvalidRequest not_configured_message), st) \<and>
         calls (snd (callTool rt st request)) = calls st \<and>
         sublist ''not configured'' not_configured_message"
proof -
  have "callTool_switch rt st request = (Inl (McpError InvalidRequest not_configured_message), st)"
    using assms
    by (auto simp: callTool_switch_def generateImage_def editImage_def continueEditing_def)
  then have "callTool rt st request = (Inl (McpError InvalidRequest not_configured_message), st)"
    by (rule callTool_wrap_McpError)
  then show ?thesis
    by (simp add: not_configured_sublist)
qed

theorem not_configured_is_invalid_request_witness:
  "\<not> ensureConfigured fresh_state \<and>
   callTool stub_runtime fresh_state
     \<lparr>name = ''generate_image'', arguments = Some [(''prompt'', JStr ''a red circle'')]\<rparr> =
     (Inl (McpError InvalidRequest not_configured_message), fresh_state) \<and>
   callTool stub_runtime fresh_state
     \<lparr>name = ''edit_image'', arguments = Some [(''imagePath'', JStr ''/work/cat.png''), (''prompt'', JStr ''add a hat'')]\<rparr> =
     (Inl (McpError InvalidRequest not_configured_message), fresh_state) \<and>
   callTool stub_runtime fresh_state \<lparr>name = ''continue_editing'', arguments = None\<rparr> =
     (Inl (McpError InvalidRequest not_configured_message), fresh_state)"
proof -
  have h: "\<not> ensureConfigured fresh_state"
    by (simp add: ensureConfigured_def fresh_state_def)
  show ?thesis
    using h
      not_configured_is_invalid_request [OF h, of "\<lparr>name = ''generate_image'', arguments = Some [(''prompt'', JStr ''a red circle'')]\<rparr>" stub_runtime]
      not_configured_is_invalid_request [OF h, of "\<lparr>name = ''edit_image'', arguments = Some [(''imagePath'', JStr ''/work/cat.png''), (''prompt'', JStr ''add a hat'')]\<rparr>" stub_runtime]
      not_configured_is_invalid_request [OF h, of "\<lparr>name = ''continue_editing'', arguments = None\<rparr>" stub_runtime]
    by simp
qed

section \<open>continue_editing without a usable last image\<close>




section \<open>configure_gemini_token: validation and persistence\<close>

lemma saveConfig_error:
  "saveConfig rt st = (Inl e, st') \<Longrightarrow> \<exists>m. e = Error m"
  by (auto simp: saveConfig_def fs_writeFile_def split: option.splits)

lemma configure_InvalidParams_unchanged:
  "configureGeminiToken rt st request = (Inl (McpError InvalidParams m), st') \<Longrightarrow> st' = st"
  by (auto simp: configureGeminiToken_def cannot_destructure_def Let_def
      split: option.splits sum.splits prod.splits
      dest: saveConfig_error)

lemma callTool_InvalidParams:
  "callTool rt st request = (Inl (McpError InvalidParams m), st') \<Longrightarrow>
   callTool_switch rt st request = (Inl (McpError InvalidParams m), st')"
  by (auto simp: callTool_def split: prod.splits sum.splits exn.splits)

lemma ConfigSchema_parse_empty_key:
  "\<exists>issues. ConfigSchema_parse rt (JStr []) url = Inl issues"
  by (simp add: ConfigSchema_parse_def ConfigSchema_issues_def zod_string_def)

lemma ConfigSchema_parse_bad_url:
  "\<not> url_ok rt u \<Longrightarrow> \<exists>issues. ConfigSchema_parse rt key (JStr u) = Inl issues"
  by (cases "zod_string key (\<lambda>s. if length s < 1 then [''Gemini API key is required''] else [])")
     (simp_all add: ConfigSchema_parse_def ConfigSchema_issues_def zod_string_def)

text \<open>
  C10: whenever \<open>configure_gemini_token\<close> returns InvalidParams, the whole state (the
  credential, the client, the provenance marker and the files on disk) is as it was
  before the call; and a payload with an empty apiKey, or with a baseUrl that is not a
  well-formed URL, does return InvalidParams.
\<close>

theorem configure_validation_failure_is_atomic:
  assumes "name request = ''configure_gemini_token''"
  shows "(callTool rt st request = (Inl (McpError InvalidParams m), st') \<longrightarrow> st' = st) \<and>
         (\<forall>args u. arguments request = Some args \<and>
             (getProp args ''apiKey'' = JStr [] \<or>
              getProp args ''baseUrl'' = JStr u \<and> u \<noteq> [] \<and> \<not> url_ok rt u) \<longrightarrow>
             (\<exists>msg. callTool rt st request = (Inl (McpError InvalidParams msg), st)))"
proof (intro conjI impI allI)
  assume "callTool rt st request = (Inl (McpError InvalidParams m), st')"
  then have "configureGeminiToken rt st request = (Inl (McpError InvalidParams m), st')"
    using assms callTool_InvalidParams callTool_configure by metis
  then show "st' = st"
    by (rule configure_InvalidParams_unchanged)
next
  fix args u
  assume h: "arguments request = Some args \<and>
             (getProp args ''apiKey'' = JStr [] \<or>
              getProp args ''baseUrl'' = JStr u \<and> u \<noteq> [] \<and> \<not> url_ok rt u)"
  then obtain issues where
    "ConfigSchema_parse rt (getProp args ''apiKey'')
       (if truthy (getProp args ''baseUrl'') then getProp args ''baseUrl'' else JUndefined) = Inl issues"
    using ConfigSchema_parse_empty_key ConfigSchema_parse_bad_url by fastforce
  with h have "\<exists>msg. configureGeminiToken rt st request = (Inl (McpError InvalidParams msg), st)"
    by (simp add: configureGeminiToken_def)
  with assms show "\<exists>msg. callTool rt st request = (Inl (McpError InvalidParams msg), st)"
    by (metis callTool_configure callTool_wrap_McpError)
qed

theorem configure_validation_failure_is_atomic_witness:
  "callTool stub_runtime configured_state
     \<lparr>name = ''configure_gemini_token'', arguments = Some [(''apiKey'', JStr [])]\<rparr> =
     (Inl (McpError InvalidParams ''Invalid configuration: Gemini API key is required''),
      configured_state) \<and>
   callTool stub_runtime configured_state
     \<lparr>name = ''configure_gemini_token'',
      arguments = Some [(''apiKey'', JStr ''new-key''), (''baseUrl'', JStr ''not a url'')]\<rparr> =
     (Inl (McpError InvalidParams ''Invalid configuration: Base URL must be a valid URL''),
      configured_state)"
proof -
  let ?r1 = "\<lparr>name = ''configure_gemini_token'', arguments = Some [(''apiKey'', JStr [])]\<rparr>"
  let ?r2 = "\<lparr>name = ''configure_gemini_token'',
      arguments = Some [(''apiKey'', JStr ''new-key''), (''baseUrl'', JStr ''not a url'')]\<rparr>"
  have n1: "name ?r1 = ''configure_gemini_token''" and n2: "name ?r2 = ''configure_gemini_token''"
    by simp_all
  have e1: "fst (callTool stub_runtime configured_state ?r1) =
      Inl (McpError InvalidParams ''Invalid configuration: Gemini API key is required'')"
    by (simp add: callTool_def callTool_switch_def configureGeminiToken_def getProp_def
        ConfigSchema_parse_def ConfigSchema_issues_def zod_string_def)
  have e2: "fst (callTool stub_runtime configured_state ?r2) =
      Inl (McpError InvalidParams ''Invalid configuration: Base URL must be a valid URL'')"
    by (simp add: callTool_def callTool_switch_def configureGeminiToken_def getProp_def
        ConfigSchema_parse_def ConfigSchema_issues_def zod_string_def stub_runtime_def)
  show ?thesis
    using e1 e2
      configure_validation_failure_is_atomic [OF n1, of stub_runtime configured_state
        "''Invalid configuration: Gemini API key is required''"
        "snd (callTool stub_runtime configured_state ?r1)"]
      configure_validation_failure_is_atomic [OF n2, of stub_runtime configured_state
        "''Invalid configuration: Base URL must be a valid URL''"
        "snd (callTool stub_runtime configured_state ?r2)"]
    by (metis prod.collapse)
qed

lemma callTool_state:
  "snd (callTool rt st request) = snd (callTool_switch rt st request)"
  by (auto simp: callTool_def split: prod.splits sum.splits exn.splits)

lemma ConfigSchema_parse_valid:
  assumes "k \<noteq> []"
    and "url = JUndefined \<or> (\<exists>u. url = JStr u \<and> url_ok rt u)"
  shows "ConfigSchema_parse rt (JStr k) url =
           Inr \<lparr>geminiApiKey = k, baseUrl = (case url of JStr u \<Rightarrow> Some u | _ \<Rightarrow> None)\<rparr>"
  using assms
  by (auto simp: ConfigSchema_parse_def ConfigSchema_issues_def zod_string_def)

lemma configure_valid_result:
  assumes "arguments request = Some args"
    and "ConfigSchema_parse rt (getProp args ''apiKey'')
           (if truthy (getProp args ''baseUrl'') then getProp args ''baseUrl'' else JUndefined) = Inr cfg"
  shows "configureGeminiToken rt st request =
     (let st1 = st\<lparr>config := Some cfg,
                    genAI := Some \<lparr>apiKey = geminiApiKey cfg, httpBaseUrl = baseUrl cfg\<rparr>,
                    configSource := config_file\<rparr>
      in case write_error rt (path_join rt [cwd rt, ''.nano-banana-config.json'']) of
           Some m \<Rightarrow> (Inl (Error m), st1)
         | None \<Rightarrow>
             (Inr [TextItem (configured_text (baseUrl cfg))],
              st1\<lparr>files := (files st1)(path_join rt [cwd rt, ''.nano-banana-config.json'']
                                          \<mapsto> json_stringify rt cfg)\<rparr>))"
  using assms
  by (simp add: configureGeminiToken_def saveConfig_def fs_writeFile_def Let_def split: option.splits)

lemma configure_valid_idempotent:
  assumes "arguments request = Some args"
    and "ConfigSchema_parse rt (getProp args ''apiKey'')
           (if truthy (getProp args ''baseUrl'') then getProp args ''baseUrl'' else JUndefined) = Inr cfg"
  shows "configureGeminiToken rt (snd (configureGeminiToken rt st request)) request =
         configureGeminiToken rt st request"
  by (simp add: configure_valid_result [OF assms] Let_def split: option.splits)

lemma callTool_as_configure:
  "name request = ''configure_gemini_token'' \<Longrightarrow>
   callTool rt st request =
     (case configureGeminiToken rt st request of
        (Inl (McpError c m), st1) \<Rightarrow> (Inl (McpError c m), st1)
      | (Inl (Error m), st1) \<Rightarrow> (Inl (McpError InternalError (''Tool execution failed: '' @ m)), st1)
      | (Inr result, st1) \<Rightarrow> (Inr result, st1))"
  by (simp add: callTool_def callTool_configure)

text \<open>
  C9: for every valid payload (a non-empty apiKey, and a baseUrl that is absent or a
  well-formed URL), a second \<open>configure_gemini_token\<close> with the same payload returns what
  the first returned and leaves the state the first one left: the same credential,
  client and provenance in memory, and the same configuration file.
\<close>

theorem configure_twice_is_configure_once:
  assumes "name request = ''configure_gemini_token''"
    and "arguments request = Some args"
    and "getProp args ''apiKey'' = JStr k" and "k \<noteq> []"
    and "getProp args ''baseUrl'' = JUndefined \<or>
         (\<exists>u. getProp args ''baseUrl'' = JStr u \<and> url_ok rt u)"
  shows "callTool rt (snd (callTool rt st request)) request = callTool rt st request \<and>
         config (snd (callTool rt st request)) =
           Some \<lparr>geminiApiKey = k,
                 baseUrl = (case getProp args ''baseUrl'' of
                              JStr u \<Rightarrow> if u = [] then None else Some u | _ \<Rightarrow> None)\<rparr> \<and>
         genAI (snd (callTool rt st request)) =
           Some \<lparr>apiKey = k,
                 httpBaseUrl = (case getProp args ''baseUrl'' of
                                  JStr u \<Rightarrow> if u = [] then None else Some u | _ \<Rightarrow> None)\<rparr> \<and>
         configSource (snd (callTool rt st request)) = config_file \<and>
         (write_error rt (path_join rt [cwd rt, ''.nano-banana-config.json'']) = None \<longrightarrow>
            files (snd (callTool rt st request)) (path_join rt [cwd rt, ''.nano-banana-config.json'']) =
              Some (json_stringify rt
                      \<lparr>geminiApiKey = k,
                       baseUrl = (case getProp args ''baseUrl'' of
                                    JStr u \<Rightarrow> if u = [] then None else Some u | _ \<Rightarrow> None)\<rparr>))"
proof -
  let ?b = "getProp args ''baseUrl''"
  let ?url = "if truthy ?b then ?b else JUndefined"
  let ?cfg = "\<lparr>geminiApiKey = k,
               baseUrl = (case ?b of JStr u \<Rightarrow> if u = [] then None else Some u | _ \<Rightarrow> None)\<rparr>"
  have url: "?url = JUndefined \<or> (\<exists>u. ?url = JStr u \<and> url_ok rt u)"
    using assms(5) by auto
  have same: "(case ?url of JStr u \<Rightarrow> Some u | _ \<Rightarrow> None) =
              (case ?b of JStr u \<Rightarrow> if u = [] then None else Some u | _ \<Rightarrow> None)"
    using assms(5) by auto
  have parse: "ConfigSchema_parse rt (getProp args ''apiKey'') ?url = Inr ?cfg"
    using ConfigSchema_parse_valid [OF assms(4) url] same assms(3) by simp
  note once = configure_valid_result [OF assms(2) parse, of st]
  note twice = configure_valid_idempotent [OF assms(2) parse, of st]
  have st1: "snd (callTool rt st request) = snd (configureGeminiToken rt st request)"
    using assms(1) by (simp add: callTool_state callTool_configure)
  have "callTool rt (snd (callTool rt st request)) request = callTool rt st request"
    unfolding st1 by (simp only: callTool_as_configure [OF assms(1)] twice)
  moreover have "config (snd (configureGeminiToken rt st request)) = Some ?cfg"
    and "genAI (snd (configureGeminiToken rt st request)) =
           Some \<lparr>apiKey = k, httpBaseUrl = baseUrl ?cfg\<rparr>"
    and "configSource (snd (configureGeminiToken rt st request)) = config_file"
    and "write_error rt (path_join rt [cwd rt, ''.nano-banana-config.json'']) = None \<longrightarrow>
         files (snd (configureGeminiToken rt st request))
           (path_join rt [cwd rt, ''.nano-banana-config.json'']) = Some (json_stringify rt ?cfg)"
    by (simp_all add: once Let_def split: option.splits)
  ultimately show ?thesis
    by (simp add: st1)
qed

theorem configure_twice_is_configure_once_witness:
  "callTool stub_runtime
     (snd (callTool stub_runtime fresh_state
        \<lparr>name = ''configure_gemini_token'',
         arguments = Some [(''apiKey'', JStr ''new-key''), (''baseUrl'', JStr ''https://proxy.example'')]\<rparr>))
     \<lparr>name = ''configure_gemini_token'',
      arguments = Some [(''apiKey'', JStr ''new-key''), (''baseUrl'', JStr ''https://proxy.example'')]\<rparr> =
   callTool stub_runtime fresh_state
     \<lparr>name = ''configure_gemini_token'',
      arguments = Some [(''apiKey'', JStr ''new-key''), (''baseUrl'', JStr ''https://proxy.example'')]\<rparr> \<and>
   config (snd (callTool stub_runtime fresh_state
     \<lparr>name = ''configure_gemini_token'',
      arguments = Some [(''apiKey'', JStr ''new-key''), (''baseUrl'', JStr ''https://proxy.example'')]\<rparr>)) =
     Some \<lparr>geminiApiKey = ''new-key'', baseUrl = Some ''https://proxy.example''\<rparr> \<and>
   files (snd (callTool stub_runtime fresh_state
     \<lparr>name = ''configure_gemini_token'',
      arguments = Some [(''apiKey'', JStr ''new-key''), (''baseUrl'', JStr ''https://proxy.example'')]\<rparr>))
     ''/work/.nano-banana-config.json'' = Some ''{ geminiApiKey: new-key, baseUrl: https://proxy.example }''"
proof -
  let ?args = "[(''apiKey'', JStr ''new-key''), (''baseUrl'', JStr ''https://proxy.example'')]"
  let ?r = "\<lparr>name = ''configure_gemini_token'', arguments = Some ?args\<rparr>"
  have h1: "name ?r = ''configure_gemini_token''" and h2: "arguments ?r = Some ?args"
    by simp_all
  have h3: "getProp ?args ''apiKey'' = JStr ''new-key''" and h4: "''new-key'' \<noteq> []"
    by (simp_all add: getProp_def)
  have h5: "getProp ?args ''baseUrl'' = JUndefined \<or>
            (\<exists>u. getProp ?args ''baseUrl'' = JStr u \<and> url_ok stub_runtime u)"
    by (simp add: getProp_def stub_runtime_def)
  have p: "path_join stub_runtime [cwd stub_runtime, ''.nano-banana-config.json''] =
           ''/work/.nano-banana-config.json''"
    and w: "write_error stub_runtime ''/work/.nano-banana-config.json'' = None"
    and j: "json_stringify stub_runtime
              \<lparr>geminiApiKey = ''new-key'', baseUrl = Some ''https://proxy.example''\<rparr> =
              ''{ geminiApiKey: new-key, baseUrl: https://proxy.example }''"
    by (simp_all add: stub_runtime_def)
  show ?thesis
    using configure_twice_is_configure_once [OF h1 h2 h3 h4 h5, of fresh_state] p w j
    by (simp add: getProp_def)
qed

section \<open>Evaluation on the concrete runtime\<close>

lemma stub_fields:
  "path_join stub_runtime = join ''/''"
  "path_extname stub_runtime = posix_extname"
  "base64_encode stub_runtime b = b"
  "base64_decode stub_runtime d = d"
  "read_error stub_runtime p = None"
  "write_error stub_runtime p = None"
  "mkdir_error stub_runtime p = None"
  "generateContent stub_runtime n c r =
     (if contents r = Prompt JUndefined then Inl ''contents are required'' else Inr stub_response)"
  by (simp_all add: stub_runtime_def)

lemma stub_names:
  "getImagesDirectory stub_runtime = ''/work/generated_imgs''"
  "image_file_name stub_runtime ''generated'' n = ''generated-2025-01-01T00-00-00-000Z-k3x9q2.png''"
  "image_file_name stub_runtime ''edited'' n = ''edited-2025-01-01T00-00-00-000Z-k3x9q2.png''"
  by (simp_all add: getImagesDirectory_def image_file_name_def stub_runtime_def
      replace_colon_dot_def substring_def)

lemma configured_state_facts:
  "ensureConfigured configured_state" "genAI configured_state = Some stub_client"
  "calls configured_state = []" "last_image configured_state = None"
  "fs_readFile rt configured_state (JStr ''/work/cat.png'') =
     (case read_error rt ''/work/cat.png'' of Some m \<Rightarrow> Inl (Error m) | None \<Rightarrow> Inr ''bytes of the cat'')"
  by (simp_all add: configured_state_def ensureConfigured_def last_image_def fs_readFile_def)

lemma session_state_facts:
  "ensureConfigured session_state" "genAI session_state = Some stub_client"
  "last_image session_state = Some ''/work/cat.png''" "fs_access session_state ''/work/cat.png''"
  by (simp_all add: session_state_def configured_state_def ensureConfigured_def last_image_def
      fs_access_def)

lemma answering_fields:
  "generateContent (answering response) n c r = Inr response"
  "path_extname (answering response) = posix_extname"
  "base64_encode (answering response) b = b"
  "read_error (answering response) p = None"
  by (simp_all add: answering_def stub_runtime_def)

lemma mime_cat: "getMimeType posix_extname ''/work/cat.png'' = ''image/png''"
  by code_simp

lemma mime_style: "getMimeType posix_extname ''/work/style.webp'' = ''image/webp''"
  by code_simp

lemma edit_request_facts:
  "fs_readFile stub_runtime configured_state (JStr ''/work/cat.png'') = Inr ''bytes of the cat''"
  "fs_readFile stub_runtime configured_state (JStr ''/work/style.webp'') = Inr ''bytes of the style''"
  "isl (fs_readFile stub_runtime configured_state (JStr ''/work/missing.png''))"
  by (simp_all add: fs_readFile_def configured_state_def stub_fields)

lemma stub_response_accepted:
  "validateResponse stub_response = Inr (hd (the (candidates stub_response)))"
  by (simp add: validateResponse_def stub_response_def)

text \<open>
  The scenario of the spec: \<open>generate_image\<close> with the prompt "a red circle". The result is
  one status text and one image; the image is written under the output directory and
  becomes the last image.
\<close>

lemma generate_example:
  "callTool stub_runtime configured_state
     \<lparr>name = ''generate_image'', arguments = Some [(''prompt'', JStr ''a red circle'')]\<rparr> =
   (Inr [TextItem (generate_status_text ''a red circle''
                    \<lparr>textContent = ''A circle.'',
                     contentItems = [ImageItem ''aGk='' ''image/png''],
                     savedFiles = [''/work/generated_imgs/generated-2025-01-01T00-00-00-000Z-k3x9q2.png'']\<rparr>),
         ImageItem ''aGk='' ''image/png''],
    configured_state
      \<lparr>calls := [(stub_client, \<lparr>model = MODEL, contents = Prompt (JStr ''a red circle'')\<rparr>)],
       tick := 1,
       files := (files configured_state)
          (''/work/generated_imgs/generated-2025-01-01T00-00-00-000Z-k3x9q2.png'' \<mapsto> ''aGk=''),
       lastImagePath := Some ''/work/generated_imgs/generated-2025-01-01T00-00-00-000Z-k3x9q2.png''\<rparr>)"
  by (simp add: callTool_def callTool_switch_def generateImage_def generateImage_try_def
      call_generateContent_def validateResponse_def candidate_parts_def stub_names stub_fields
      ensureConfigured_def getProp_def save_image_def fs_writeFile_def add_text_def
      blob_data_def blob_mime_def stub_response_def configured_state_def)

text \<open>
  The same call with no \<open>prompt\<close> among its arguments: the generation client is called
  with \<open>undefined\<close> as contents, and its error comes back as an InternalError.
\<close>

lemma generate_missing_prompt_example:
  "callTool stub_runtime configured_state \<lparr>name = ''generate_image'', arguments = Some []\<rparr> =
   (Inl (McpError InternalError ''Failed to generate image: contents are required''),
    configured_state
      \<lparr>calls := [(stub_client, \<lparr>model = MODEL, contents = Prompt JUndefined\<rparr>)]\<rparr>)"
  by (simp add: callTool_def callTool_switch_def generateImage_def generateImage_try_def
      call_generateContent_def stub_fields ensureConfigured_def getProp_def configured_state_def)

lemma answering_names:
  "getImagesDirectory (answering response) = ''/work/generated_imgs''"
  "image_file_name (answering response) ''generated'' n =
     ''generated-2025-01-01T00-00-00-000Z-k3x9q2.png''"
  "path_join (answering response) = join ''/''"
  "base64_decode (answering response) d = d"
  "write_error (answering response) p = None"
  "mkdir_error (answering response) p = None"
  by (simp_all add: getImagesDirectory_def image_file_name_def answering_def stub_runtime_def
      replace_colon_dot_def substring_def)

text \<open>
  The same call on a runtime whose client passes \<open>undefined\<close> contents on and whose
  service answers: the call succeeds and an image is written.
\<close>

lemma generate_missing_prompt_answered_example:
  "callTool (answering stub_response) configured_state
     \<lparr>name = ''generate_image'', arguments = Some []\<rparr> =
   (Inr [TextItem (generate_status_text ''undefined''
                    \<lparr>textContent = ''A circle.'',
                     contentItems = [ImageItem ''aGk='' ''image/png''],
                     savedFiles = [''/work/generated_imgs/generated-2025-01-01T00-00-00-000Z-k3x9q2.png'']\<rparr>),
         ImageItem ''aGk='' ''image/png''],
    configured_state
      \<lparr>calls := [(stub_client, \<lparr>model = MODEL, contents = Prompt JUndefined\<rparr>)],
       tick := 1,
       files := (files configured_state)
          (''/work/generated_imgs/generated-2025-01-01T00-00-00-000Z-k3x9q2.png'' \<mapsto> ''aGk=''),
       lastImagePath := Some ''/work/generated_imgs/generated-2025-01-01T00-00-00-000Z-k3x9q2.png''\<rparr>)"
  by (simp add: callTool_def callTool_switch_def generateImage_def generateImage_try_def
      call_generateContent_def validateResponse_def candidate_parts_def answering_names
      answering_fields ensureConfigured_def getProp_def save_image_def fs_writeFile_def
      add_text_def blob_data_def blob_mime_def stub_response_def configured_state_def)

text \<open>\<open>configure_gemini_token\<close> with no \<open>apiKey\<close> among its arguments: the schema rejects it.\<close>

lemma configure_missing_apiKey_example:
  "callTool stub_runtime configured_state
     \<lparr>name = ''configure_gemini_token'', arguments = Some []\<rparr> =
   (Inl (McpError InvalidParams ''Invalid configuration: Required''), configured_state)"
  by (simp add: callTool_def callTool_switch_def configureGeminiToken_def getProp_def
      ConfigSchema_parse_def ConfigSchema_issues_def zod_string_def)

text \<open>\<open>edit_image\<close> with no \<open>imagePath\<close> among its arguments: reading the file throws.\<close>

lemma edit_missing_imagePath_example:
  "callTool stub_runtime configured_state
     \<lparr>name = ''edit_image'', arguments = Some [(''prompt'', JStr ''add a hat'')]\<rparr> =
   (Inl (McpError InternalError
           ''Failed to edit image: The path argument must be of type string''),
    configured_state)"
  by (simp add: callTool_def callTool_switch_def editImage_def editImage_try_def
      prepareImageParts_def fs_readFile_def getProp_def configured_state_facts stub_runtime_def)

section \<open>The order of the content items\<close>

lemma add_text_items [simp]: "contentItems (add_text part acc) = contentItems acc"
  by (simp add: add_text_def split: option.splits)

lemma save_image_items:
  "save_image rt filePath blob d acc st = (Inr acc1, st1) \<Longrightarrow>
   list_all is_image (contentItems acc) \<Longrightarrow> list_all is_image (contentItems acc1)"
  by (auto simp: save_image_def split: prod.splits sum.splits)

lemma generate_parts_items:
  "generate_parts rt dir ps acc st = (Inr acc', st') \<Longrightarrow>
   list_all is_image (contentItems acc) \<Longrightarrow> list_all is_image (contentItems acc')"
proof (induction ps arbitrary: acc st)
  case Nil
  then show ?case by simp
next
  case (Cons part rest)
  then show ?case
    by (auto split: option.splits prod.splits sum.splits dest: save_image_items)
qed

lemma edit_parts_items:
  "edit_parts rt dir ps acc st = (Inr acc', st') \<Longrightarrow>
   list_all is_image (contentItems acc) \<Longrightarrow> list_all is_image (contentItems acc')"
proof (induction ps arbitrary: acc st)
  case Nil
  then show ?case by simp
next
  case (Cons part rest)
  then show ?case
    by (auto split: option.splits prod.splits sum.splits dest: save_image_items)
qed

lemma generateImage_try_text_first:
  "generateImage_try rt st prompt = (Inr result, st') \<Longrightarrow> text_first result"
  by (auto simp: generateImage_try_def text_first_def
      split: prod.splits sum.splits option.splits dest: generate_parts_items)

lemma editImage_try_text_first:
  "editImage_try rt st imagePath prompt refs = (Inr result, st') \<Longrightarrow> text_first result"
  by (auto simp: editImage_try_def text_first_def
      split: prod.splits sum.splits option.splits dest: edit_parts_items)

lemma generateImage_text_first:
  "generateImage rt st request = (Inr result, st') \<Longrightarrow> text_first result"
  by (auto simp: generateImage_def split: if_splits option.splits prod.splits sum.splits
      dest: generateImage_try_text_first)

lemma editImage_text_first:
  "editImage rt st request = (Inr result, st') \<Longrightarrow> text_first result"
  by (auto simp: editImage_def split: if_splits option.splits prod.splits sum.splits
      dest: editImage_try_text_first)

lemma continueEditing_text_first:
  "continueEditing rt st request = (Inr result, st') \<Longrightarrow> text_first result"
  by (auto simp: continueEditing_def split: if_splits option.splits
      dest: editImage_text_first)

lemma configureGeminiToken_text_first:
  "configureGeminiToken rt st request = (Inr result, st') \<Longrightarrow> text_first result"
  by (auto simp: configureGeminiToken_def text_first_def Let_def
      split: option.splits sum.splits prod.splits)

lemma getConfigurationStatus_text_first:
  "getConfigurationStatus rt st = (Inr result, st') \<Longrightarrow> text_first result"
  by (auto simp: getConfigurationStatus_def text_first_def split: if_splits)

lemma getLastImageInfo_text_first:
  "getLastImageInfo rt st = (Inr result, st') \<Longrightarrow> text_first result"
  by (auto simp: getLastImageInfo_def text_first_def split: option.splits)

lemma callTool_success:
  "callTool rt st request = (Inr result, st') \<Longrightarrow>
   callTool_switch rt st request = (Inr result, st')"
  by (auto simp: callTool_def split: prod.splits sum.splits exn.splits)

text \<open>
  C8: in every successful result of a tool call, whatever the tool, the first content
  item is a text item and every item after it is an image item.
\<close>

theorem successful_result_starts_with_status_text:
  assumes "callTool rt st request = (Inr result, st')"
  shows "\<exists>t images. result = TextItem t # images \<and> list_all is_image images"
proof -
  have "callTool_switch rt st request = (Inr result, st')"
    using assms by (rule callTool_success)
  then have "text_first result"
    by (auto simp: callTool_switch_def split: if_splits
        dest: generateImage_text_first editImage_text_first continueEditing_text_first
          configureGeminiToken_text_first getConfigurationStatus_text_first
          getLastImageInfo_text_first)
  then show ?thesis
    by (auto simp: text_first_def split: list.splits content_item.splits)
qed

theorem successful_result_starts_with_status_text_witness:
  "callTool stub_runtime configured_state
     \<lparr>name = ''generate_image'', arguments = Some [(''prompt'', JStr ''a red circle'')]\<rparr> =
   (Inr [TextItem (generate_status_text ''a red circle''
                    \<lparr>textContent = ''A circle.'',
                     contentItems = [ImageItem ''aGk='' ''image/png''],
                     savedFiles = [''/work/generated_imgs/generated-2025-01-01T00-00-00-000Z-k3x9q2.png'']\<rparr>),
         ImageItem ''aGk='' ''image/png''],
    configured_state
      \<lparr>calls := [(stub_client, \<lparr>model = MODEL, contents = Prompt (JStr ''a red circle'')\<rparr>)],
       tick := 1,
       files := (files configured_state)
          (''/work/generated_imgs/generated-2025-01-01T00-00-00-000Z-k3x9q2.png'' \<mapsto> ''aGk=''),
       lastImagePath := Some ''/work/generated_imgs/generated-2025-01-01T00-00-00-000Z-k3x9q2.png''\<rparr>) \<and>
   list_all is_image [ImageItem ''aGk='' ''image/png'']"
  using successful_result_starts_with_status_text [OF generate_example] generate_example
  by simp

section \<open>Validation of the arguments\<close>

lemma generateImage_errors:
  "generateImage rt st request = (Inl e, st') \<Longrightarrow>
   (\<exists>m. e = McpError InvalidRequest m) \<or> (\<exists>m. e = McpError InternalError m) \<or> (\<exists>m. e = Error m)"
  by (auto simp: generateImage_def cannot_destructure_def
      split: if_splits option.splits prod.splits sum.splits)

lemma editImage_errors:
  "editImage rt st request = (Inl e, st') \<Longrightarrow>
   (\<exists>m. e = McpError InvalidRequest m) \<or> (\<exists>m. e = McpError InternalError m) \<or> (\<exists>m. e = Error m)"
  by (auto simp: editImage_def cannot_destructure_def
      split: if_splits option.splits prod.splits sum.splits)

lemma continueEditing_errors:
  "continueEditing rt st request = (Inl e, st') \<Longrightarrow>
   (\<exists>m. e = McpError InvalidRequest m) \<or> (\<exists>m. e = McpError InternalError m) \<or> (\<exists>m. e = Error m)"
  by (auto simp: continueEditing_def cannot_destructure_def
      split: if_splits option.splits dest: editImage_errors)

lemma save_image_calls:
  "save_image rt filePath blob d acc st = (r, st') \<Longrightarrow> calls st' = calls st"
  by (auto simp: save_image_def fs_writeFile_def split: option.splits)

lemma generate_parts_calls:
  "generate_parts rt dir ps acc st = (r, st') \<Longrightarrow> calls st' = calls st"
proof (induction ps arbitrary: acc st)
  case Nil
  then show ?case by simp
next
  case (Cons part rest)
  then show ?case
    by (fastforce split: option.splits prod.splits sum.splits dest: save_image_calls)
qed

lemma edit_parts_calls:
  "edit_parts rt dir ps acc st = (r, st') \<Longrightarrow> calls st' = calls st"
proof (induction ps arbitrary: acc st)
  case Nil
  then show ?case by simp
next
  case (Cons part rest)
  then show ?case
    by (fastforce split: option.splits prod.splits sum.splits dest: save_image_calls)
qed

lemma generateImage_try_calls:
  "genAI st = Some client \<Longrightarrow>
   calls (snd (generateImage_try rt st prompt)) =
     calls st @ [(client, \<lparr>model = MODEL, contents = Prompt prompt\<rparr>)]"
  by (auto simp: generateImage_try_def call_generateContent_def Let_def
      split: prod.splits sum.splits option.splits dest: generate_parts_calls)

lemma ConfigSchema_parse_key_not_string:
  "(\<forall>s. key \<noteq> JStr s) \<Longrightarrow> \<exists>issues. ConfigSchema_parse rt key url = Inl issues"
  by (cases key) (simp_all add: ConfigSchema_parse_def ConfigSchema_issues_def zod_string_def)

text \<open>
  What holds on every runtime: \<open>configure_gemini_token\<close> rejects a missing or
  ill-typed \<open>apiKey\<close> with InvalidParams and changes nothing; the three image tools
  never return InvalidParams; and \<open>generate_image\<close> hands the \<open>prompt\<close> it reads from the
  arguments object to the generation client as it is.
\<close>

lemma configure_rejects_missing_apiKey:
  assumes "name request = ''configure_gemini_token''" and "arguments request = Some args"
    and "\<forall>s. getProp args ''apiKey'' \<noteq> JStr s"
  shows "\<exists>m. callTool rt st request = (Inl (McpError InvalidParams m), st)"
proof -
  obtain issues where
    "ConfigSchema_parse rt (getProp args ''apiKey'')
       (if truthy (getProp args ''baseUrl'') then getProp args ''baseUrl'' else JUndefined) = Inl issues"
    using assms(3) ConfigSchema_parse_key_not_string by blast
  with assms have "\<exists>m. configureGeminiToken rt st request = (Inl (McpError InvalidParams m), st)"
    by (simp add: configureGeminiToken_def)
  with assms(1) show ?thesis
    by (metis callTool_configure callTool_wrap_McpError)
qed

lemma image_tools_never_return_InvalidParams:
  assumes "name request = ''generate_image'' \<or> name request = ''edit_image'' \<or>
           name request = ''continue_editing''"
    and "fst (callTool rt st request) = Inl e"
  shows "(\<exists>m. e = McpError InvalidRequest m) \<or> (\<exists>m. e = McpError InternalError m)"
proof -
  obtain r0 st0 where sw: "callTool_switch rt st request = (r0, st0)"
    by (cases "callTool_switch rt st request")
  have "callTool_switch rt st request = generateImage rt st request \<or>
        callTool_switch rt st request = editImage rt st request \<or>
        callTool_switch rt st request = continueEditing rt st request"
    using assms(1) by (auto simp: callTool_switch_def)
  then have "\<And>e0. callTool_switch rt st request = (Inl e0, st0) \<Longrightarrow>
     (\<exists>m. e0 = McpError InvalidRequest m) \<or> (\<exists>m. e0 = McpError InternalError m) \<or> (\<exists>m. e0 = Error m)"
    by (metis generateImage_errors editImage_errors continueEditing_errors)
  then show ?thesis
    using sw assms(2) by (auto simp: callTool_def split: sum.splits exn.splits)
qed

lemma generate_image_calls_the_client:
  assumes "name request = ''generate_image''" and "ensureConfigured st"
    and "genAI st = Some client" and "arguments request = Some args"
  shows "calls (snd (callTool rt st request)) =
           calls st @ [(client, \<lparr>model = MODEL, contents = Prompt (getProp args ''prompt'')\<rparr>)]"
proof -
  have "snd (callTool rt st request) = snd (generateImage_try rt st (getProp args ''prompt''))"
    using assms
    by (auto simp: callTool_state callTool_switch_def generateImage_def split: prod.splits sum.splits)
  with assms(3) show ?thesis
    by (simp add: generateImage_try_calls)
qed

text \<open>
  C1: the claim is that a known tool invoked without a required argument, or with one
  of the wrong type, fails with InvalidParams before it has any effect. The tool list
  declares \<open>prompt\<close> required, and \<open>configure_gemini_token\<close> does reject a missing
  \<open>apiKey\<close> with InvalidParams, but \<open>generate_image\<close> does not check its arguments.
  Evaluated with a credential configured and no \<open>prompt\<close>: the generation client is
  called with \<open>undefined\<close> as contents; where the client throws, the call fails with
  InternalError, and where the service answers, the call succeeds and writes an image.
  In neither case is the result InvalidParams.
\<close>

theorem missing_prompt_is_not_rejected:
  "getProp [] ''prompt'' = JUndefined \<and>
   ensureConfigured configured_state \<and>
   callTool stub_runtime configured_state \<lparr>name = ''generate_image'', arguments = Some []\<rparr> =
     (Inl (McpError InternalError ''Failed to generate image: contents are required''),
      configured_state
        \<lparr>calls := [(stub_client, \<lparr>model = MODEL, contents = Prompt JUndefined\<rparr>)]\<rparr>) \<and>
   callTool (answering stub_response) configured_state
     \<lparr>name = ''generate_image'', arguments = Some []\<rparr> =
     (Inr [TextItem (generate_status_text ''undefined''
                      \<lparr>textContent = ''A circle.'',
                       contentItems = [ImageItem ''aGk='' ''image/png''],
                       savedFiles = [''/work/generated_imgs/generated-2025-01-01T00-00-00-000Z-k3x9q2.png'']\<rparr>),
           ImageItem ''aGk='' ''image/png''],
      configured_state
        \<lparr>calls := [(stub_client, \<lparr>model = MODEL, contents = Prompt JUndefined\<rparr>)],
         tick := 1,
         files := (files configured_state)
            (''/work/generated_imgs/generated-2025-01-01T00-00-00-000Z-k3x9q2.png'' \<mapsto> ''aGk=''),
         lastImagePath := Some ''/work/generated_imgs/generated-2025-01-01T00-00-00-000Z-k3x9q2.png''\<rparr>) \<and>
   callTool stub_runtime configured_state
     \<lparr>name = ''configure_gemini_token'', arguments = Some []\<rparr> =
     (Inl (McpError InvalidParams ''Invalid configuration: Required''), configured_state)"
  using generate_missing_prompt_example generate_missing_prompt_answered_example
    configure_missing_apiKey_example
  by (simp add: getProp_def configured_state_facts)

section \<open>continue_editing is edit_image on the last image\<close>

lemma getProp_Cons:
  "getProp ((k, v) # kvs) k' = (if k = k' then v else getProp kvs k')"
  by (simp add: getProp_def)

lemma continueEditing_as_editImage:
  assumes "arguments request = Some args"
    and "last_image st = Some p"
    and "fs_access st p"
  shows "continueEditing rt st request =
         editImage rt st \<lparr>name = ''edit_image'', arguments = Some ((''imagePath'', JStr p) # args)\<rparr>"
proof (cases "ensureConfigured st")
  case True
  have "editImage rt st
          \<lparr>name = ''edit_image'',
           arguments = Some [(''imagePath'', JStr p),
                             (''prompt'', getProp args ''prompt''),
                             (''referenceImages'', getProp args ''referenceImages'')]\<rparr> =
        editImage rt st \<lparr>name = ''edit_image'', arguments = Some ((''imagePath'', JStr p) # args)\<rparr>"
    by (simp add: editImage_def getProp_Cons)
  with True assms show ?thesis
    by (simp add: continueEditing_def)
next
  case False
  then show ?thesis
    by (simp add: continueEditing_def editImage_def)
qed

text \<open>
  C2: when the session holds the path of an existing file, \<open>continue_editing\<close> with any
  arguments object returns exactly what \<open>edit_image\<close> returns for the same arguments with
  that path as \<open>imagePath\<close>: the same content items or the same error, and the same
  resulting state (session, files on disk, requests sent).
\<close>

theorem continue_editing_is_edit_image_on_last_image:
  assumes "name request = ''continue_editing''"
    and "arguments request = Some args"
    and "last_image st = Some p"
    and "fs_access st p"
  shows "callTool rt st request =
         callTool rt st \<lparr>name = ''edit_image'', arguments = Some ((''imagePath'', JStr p) # args)\<rparr>"
proof -
  let ?explicit = "\<lparr>name = ''edit_image'', arguments = Some ((''imagePath'', JStr p) # args)\<rparr>"
  have "callTool_switch rt st request = continueEditing rt st request"
    using assms(1) by (simp add: callTool_switch_def)
  moreover have "callTool_switch rt st ?explicit = editImage rt st ?explicit"
    by (simp add: callTool_switch_def)
  ultimately have "callTool_switch rt st request = callTool_switch rt st ?explicit"
    using continueEditing_as_editImage [OF assms(2-4)] by simp
  then show ?thesis
    by (simp add: callTool_def)
qed

theorem continue_editing_is_edit_image_on_last_image_witness:
  "last_image session_state = Some ''/work/cat.png'' \<and>
   fs_access session_state ''/work/cat.png'' \<and>
   callTool stub_runtime session_state
     \<lparr>name = ''continue_editing'',
      arguments = Some [(''prompt'', JStr ''add a hat''),
                        (''referenceImages'', JArr [JStr ''/work/hat.png''])]\<rparr> =
   callTool stub_runtime session_state
     \<lparr>name = ''edit_image'',
      arguments = Some [(''imagePath'', JStr ''/work/cat.png''),
                        (''prompt'', JStr ''add a hat''),
                        (''referenceImages'', JArr [JStr ''/work/hat.png''])]\<rparr>"
  using session_state_facts
    continue_editing_is_edit_image_on_last_image [of
      "\<lparr>name = ''continue_editing'',
        arguments = Some [(''prompt'', JStr ''add a hat''),
                          (''referenceImages'', JArr [JStr ''/work/hat.png''])]\<rparr>"
      "[(''prompt'', JStr ''add a hat''), (''referenceImages'', JArr [JStr ''/work/hat.png''])]"
      session_state "''/work/cat.png''" stub_runtime]
  by simp

section \<open>Validation of the response\<close>

lemma sublist_behind: "sublist xs ys \<Longrightarrow> sublist xs (ps @ ys)"
  by (metis append.assoc sublist_def)

lemma validateResponse_no_candidates:
  "candidates response = None \<or> candidates response = Some [] \<Longrightarrow>
   validateResponse response = Inl (McpError InternalError ''No candidates in response from Gemini API'')"
  by (auto simp: validateResponse_def)

lemma validateResponse_no_finishReason:
  "candidates response = Some (c # cs) \<Longrightarrow> finishReason c = None \<Longrightarrow>
   validateResponse response =
     Inl (McpError InternalError
            (''Response missing finish reason - generation '' @ ''may have been interrupted'' @ []))"
  by (simp add: validateResponse_def)

lemma validateResponse_other_finishReason:
  assumes "candidates response = Some (c # cs)" and "finishReason c = Some r"
    and "r \<noteq> ''STOP''" and "r \<noteq> ''MAX_TOKENS''"
  shows "\<exists>m. validateResponse response = Inl (McpError InternalError m) \<and> sublist r m"
proof (cases "r = []")
  case True
  with assms show ?thesis by (simp add: validateResponse_def)
next
  case False
  with assms have "validateResponse response =
      Inl (McpError InternalError (''Generation failed with finish reason: '' @ r))"
    by (simp add: validateResponse_def)
  then show ?thesis by (metis sublist_append_leftI)
qed

lemma generateImage_rejected_response:
  assumes "ensureConfigured st" and "genAI st = Some client" and "arguments request = Some args"
    and "generateContent rt (length (calls st)) client
           \<lparr>model = MODEL, contents = Prompt (getProp args ''prompt'')\<rparr> = Inr response"
    and "validateResponse response = Inl (McpError InternalError m)"
  shows "fst (generateImage rt st request) =
           Inl (McpError InternalError (''Failed to generate image: '' @ ''MCP error -32603: '' @ m))"
  using assms
  by (simp add: generateImage_def generateImage_try_def call_generateContent_def)

lemma editImage_rejected_response:
  assumes "ensureConfigured st" and "genAI st = Some client" and "arguments request = Some args"
    and "prepareImageParts rt st (getProp args ''imagePath'') (getProp args ''prompt'')
           (getProp args ''referenceImages'') = Inr imageParts"
    and "generateContent rt (length (calls st)) client
           \<lparr>model = MODEL, contents = Parts imageParts\<rparr> = Inr response"
    and "validateResponse response = Inl (McpError InternalError m)"
  shows "fst (editImage rt st request) =
           Inl (McpError InternalError (''Failed to edit image: '' @ ''MCP error -32603: '' @ m))"
  using assms
  by (simp add: editImage_def editImage_try_def call_generateContent_def)

lemma callTool_fst_McpError:
  "fst (callTool_switch rt st request) = Inl (McpError c m) \<Longrightarrow>
   fst (callTool rt st request) = Inl (McpError c m)"
  by (cases "callTool_switch rt st request") (simp add: callTool_def)

lemma rejected_response_is_internal_error:
  assumes "ensureConfigured st" and "genAI st = Some client" and "arguments request = Some args"
    and "name request = ''generate_image'' \<and>
           generateContent rt (length (calls st)) client
             \<lparr>model = MODEL, contents = Prompt (getProp args ''prompt'')\<rparr> = Inr response \<or>
         name request = ''edit_image'' \<and>
           (\<exists>imageParts.
              prepareImageParts rt st (getProp args ''imagePath'') (getProp args ''prompt'')
                (getProp args ''referenceImages'') = Inr imageParts \<and>
              generateContent rt (length (calls st)) client
                \<lparr>model = MODEL, contents = Parts imageParts\<rparr> = Inr response)"
    and "validateResponse response = Inl (McpError InternalError m0)"
    and "sublist frag m0"
  shows "\<exists>m. fst (callTool rt st request) = Inl (McpError InternalError m) \<and> sublist frag m"
proof -
  from assms(4) show ?thesis
  proof (elim disjE conjE exE)
    assume n: "name request = ''generate_image''"
      and g: "generateContent rt (length (calls st)) client
             \<lparr>model = MODEL, contents = Prompt (getProp args ''prompt'')\<rparr> = Inr response"
    have "fst (callTool_switch rt st request) =
        Inl (McpError InternalError (''Failed to generate image: '' @ ''MCP error -32603: '' @ m0))"
      using n generateImage_rejected_response [OF assms(1-3) g assms(5)]
      by (simp add: callTool_switch_def)
    then have "fst (callTool rt st request) =
        Inl (McpError InternalError ((''Failed to generate image: '' @ ''MCP error -32603: '') @ m0))"
      by (simp add: callTool_fst_McpError)
    then show ?thesis
      using assms(6) sublist_behind by blast
  next
    fix imageParts
    assume n: "name request = ''edit_image''"
      and p: "prepareImageParts rt st (getProp args ''imagePath'') (getProp args ''prompt'')
                (getProp args ''referenceImages'') = Inr imageParts"
      and g: "generateContent rt (length (calls st)) client
                \<lparr>model = MODEL, contents = Parts imageParts\<rparr> = Inr response"
    have "fst (callTool_switch rt st request) =
        Inl (McpError InternalError (''Failed to edit image: '' @ ''MCP error -32603: '' @ m0))"
      using n editImage_rejected_response [OF assms(1-3) p g assms(5)]
      by (simp add: callTool_switch_def)
    then have "fst (callTool rt st request) =
        Inl (McpError InternalError ((''Failed to edit image: '' @ ''MCP error -32603: '') @ m0))"
      by (simp add: callTool_fst_McpError)
    then show ?thesis
      using assms(6) sublist_behind by blast
  qed
qed

text \<open>
  C5: for every response that \<open>generate_image\<close> or \<open>edit_image\<close> receives from the
  service: with no candidates the call fails with InternalError; when the first candidate
  has no finish reason it fails with InternalError and a message saying the generation
  may have been interrupted; when the finish reason is neither STOP nor MAX_TOKENS it
  fails with InternalError and a message that contains the finish reason.
\<close>

theorem upstream_response_is_validated:
  assumes "ensureConfigured st" and "genAI st = Some client" and "arguments request = Some args"
    and "name request = ''generate_image'' \<and>
           generateContent rt (length (calls st)) client
             \<lparr>model = MODEL, contents = Prompt (getProp args ''prompt'')\<rparr> = Inr response \<or>
         name request = ''edit_image'' \<and>
           (\<exists>imageParts.
              prepareImageParts rt st (getProp args ''imagePath'') (getProp args ''prompt'')
                (getProp args ''referenceImages'') = Inr imageParts \<and>
              generateContent rt (length (calls st)) client
                \<lparr>model = MODEL, contents = Parts imageParts\<rparr> = Inr response)"
  shows "(candidates response = None \<or> candidates response = Some [] \<longrightarrow>
            (\<exists>m. fst (callTool rt st request) = Inl (McpError InternalError m))) \<and>
         (\<forall>c cs. candidates response = Some (c # cs) \<and> finishReason c = None \<longrightarrow>
            (\<exists>m. fst (callTool rt st request) = Inl (McpError InternalError m) \<and>
                 sublist ''may have been interrupted'' m)) \<and>
         (\<forall>c cs r. candidates response = Some (c # cs) \<and> finishReason c = Some r \<and>
                   r \<noteq> ''STOP'' \<and> r \<noteq> ''MAX_TOKENS'' \<longrightarrow>
            (\<exists>m. fst (callTool rt st request) = Inl (McpError InternalError m) \<and> sublist r m))"
proof (intro conjI impI allI)
  assume "candidates response = None \<or> candidates response = Some []"
  then have "validateResponse response =
      Inl (McpError InternalError ''No candidates in response from Gemini API'')"
    by (rule validateResponse_no_candidates)
  from rejected_response_is_internal_error [OF assms this, of "[]"]
  show "\<exists>m. fst (callTool rt st request) = Inl (McpError InternalError m)"
    by auto
next
  fix c cs
  assume "candidates response = Some (c # cs) \<and> finishReason c = None"
  then have "validateResponse response =
      Inl (McpError InternalError
            (''Response missing finish reason - generation '' @ ''may have been interrupted'' @ []))"
    by (simp add: validateResponse_no_finishReason)
  from rejected_response_is_internal_error [OF assms this, of "''may have been interrupted''"]
  show "\<exists>m. fst (callTool rt st request) = Inl (McpError InternalError m) \<and>
            sublist ''may have been interrupted'' m"
    using sublist_appendI by blast
next
  fix c cs r
  assume "candidates response = Some (c # cs) \<and> finishReason c = Some r \<and>
          r \<noteq> ''STOP'' \<and> r \<noteq> ''MAX_TOKENS''"
  then obtain m0 where "validateResponse response = Inl (McpError InternalError m0)"
    and "sublist r m0"
    using validateResponse_other_finishReason by blast
  from rejected_response_is_internal_error [OF assms this]
  show "\<exists>m. fst (callTool rt st request) = Inl (McpError InternalError m) \<and> sublist r m" .
qed

theorem upstream_response_is_validated_witness:
  "(\<exists>m. fst (callTool (answering \<lparr>candidates = Some []\<rparr>) configured_state
            \<lparr>name = ''generate_image'', arguments = Some [(''prompt'', JStr ''a red circle'')]\<rparr>) =
         Inl (McpError InternalError m)) \<and>
   (\<exists>m. fst (callTool
            (answering \<lparr>candidates = Some [\<lparr>finishReason = None, content = None\<rparr>]\<rparr>)
            configured_state
            \<lparr>name = ''edit_image'',
             arguments = Some [(''imagePath'', JStr ''/work/cat.png''),
                               (''prompt'', JStr ''add a hat'')]\<rparr>) =
         Inl (McpError InternalError m) \<and> sublist ''may have been interrupted'' m) \<and>
   (\<exists>m. fst (callTool
            (answering \<lparr>candidates = Some [\<lparr>finishReason = Some ''SAFETY'', content = None\<rparr>]\<rparr>)
            configured_state
            \<lparr>name = ''generate_image'', arguments = Some [(''prompt'', JStr ''a red circle'')]\<rparr>) =
         Inl (McpError InternalError m) \<and> sublist ''SAFETY'' m)"
proof -
  let ?g = "\<lparr>name = ''generate_image'', arguments = Some [(''prompt'', JStr ''a red circle'')]\<rparr>"
  let ?ga = "[(''prompt'', JStr ''a red circle'')]"
  let ?e = "\<lparr>name = ''edit_image'',
             arguments = Some [(''imagePath'', JStr ''/work/cat.png''),
                               (''prompt'', JStr ''add a hat'')]\<rparr>"
  let ?ea = "[(''imagePath'', JStr ''/work/cat.png''), (''prompt'', JStr ''add a hat'')]"
  let ?r1 = "\<lparr>candidates = Some []\<rparr>"
  let ?r2 = "\<lparr>candidates = Some [\<lparr>finishReason = None, content = None\<rparr>]\<rparr>"
  let ?r3 = "\<lparr>candidates = Some [\<lparr>finishReason = Some ''SAFETY'', content = None\<rparr>]\<rparr>"
  have ga: "arguments ?g = Some ?ga" and ea: "arguments ?e = Some ?ea"
    by simp_all
  have g1: "name ?g = ''generate_image'' \<and>
           generateContent (answering ?r1) (length (calls configured_state)) stub_client
             \<lparr>model = MODEL, contents = Prompt (getProp ?ga ''prompt'')\<rparr> = Inr ?r1 \<or>
         name ?g = ''edit_image'' \<and>
           (\<exists>imageParts.
              prepareImageParts (answering ?r1) configured_state (getProp ?ga ''imagePath'')
                (getProp ?ga ''prompt'') (getProp ?ga ''referenceImages'') = Inr imageParts \<and>
              generateContent (answering ?r1) (length (calls configured_state)) stub_client
                \<lparr>model = MODEL, contents = Parts imageParts\<rparr> = Inr ?r1)"
    by (simp add: answering_fields)
  have g3: "name ?g = ''generate_image'' \<and>
           generateContent (answering ?r3) (length (calls configured_state)) stub_client
             \<lparr>model = MODEL, contents = Prompt (getProp ?ga ''prompt'')\<rparr> = Inr ?r3 \<or>
         name ?g = ''edit_image'' \<and>
           (\<exists>imageParts.
              prepareImageParts (answering ?r3) configured_state (getProp ?ga ''imagePath'')
                (getProp ?ga ''prompt'') (getProp ?ga ''referenceImages'') = Inr imageParts \<and>
              generateContent (answering ?r3) (length (calls configured_state)) stub_client
                \<lparr>model = MODEL, contents = Parts imageParts\<rparr> = Inr ?r3)"
    by (simp add: answering_fields)
  have "prepareImageParts (answering ?r2) configured_state (getProp ?ea ''imagePath'')
          (getProp ?ea ''prompt'') (getProp ?ea ''referenceImages'') =
        Inr [InlineData ''bytes of the cat'' ''image/png'', TextPart (JStr ''add a hat'')]"
    by (simp add: prepareImageParts_def getProp_def configured_state_facts answering_fields
        hasReferenceImages_def mime_cat)
  then have e2: "name ?e = ''generate_image'' \<and>
           generateContent (answering ?r2) (length (calls configured_state)) stub_client
             \<lparr>model = MODEL, contents = Prompt (getProp ?ea ''prompt'')\<rparr> = Inr ?r2 \<or>
         name ?e = ''edit_image'' \<and>
           (\<exists>imageParts.
              prepareImageParts (answering ?r2) configured_state (getProp ?ea ''imagePath'')
                (getProp ?ea ''prompt'') (getProp ?ea ''referenceImages'') = Inr imageParts \<and>
              generateContent (answering ?r2) (length (calls configured_state)) stub_client
                \<lparr>model = MODEL, contents = Parts imageParts\<rparr> = Inr ?r2)"
    by (simp add: answering_fields)
  show ?thesis
    using
      upstream_response_is_validated [OF configured_state_facts(1,2) ga g1]
      upstream_response_is_validated [OF configured_state_facts(1,2) ea e2]
      upstream_response_is_validated [OF configured_state_facts(1,2) ga g3]
    by simp
qed

section \<open>Reference images that do not load\<close>

lemma map_filter_loadReference:
  "List.map_filter (loadReference rt st) (map JStr refs) =
   map (\<lambda>r. InlineData (base64_encode rt (projr (fs_readFile rt st (JStr r))))
                        (getMimeType (path_extname rt) r))
       (filter (\<lambda>r. \<not> isl (fs_readFile rt st (JStr r))) refs)"
proof (induction refs)
  case Nil
  then show ?case by (simp add: List.map_filter_simps)
next
  case (Cons r refs)
  then show ?case
    by (cases "fs_readFile rt st (JStr r)")
       (simp_all add: List.map_filter_simps loadReference_def)
qed

lemma hasReferenceImages_array:
  "hasReferenceImages rt (JArr xs) = Inr (xs \<noteq> [])"
  by (simp add: hasReferenceImages_def)

lemma prepareImageParts_string_references:
  assumes "fs_readFile rt st (JStr p) = Inr imageBuffer"
  shows "prepareImageParts rt st (JStr p) prompt (JArr (map JStr refs)) =
     Inr (InlineData (base64_encode rt imageBuffer) (getMimeType (path_extname rt) p) #
          map (\<lambda>r. InlineData (base64_encode rt (projr (fs_readFile rt st (JStr r))))
                               (getMimeType (path_extname rt) r))
              (filter (\<lambda>r. \<not> isl (fs_readFile rt st (JStr r))) refs) @
          [TextPart prompt])"
proof (cases "refs = []")
  case True
  with assms show ?thesis
    by (simp add: prepareImageParts_def hasReferenceImages_array)
next
  case False
  with assms show ?thesis
    by (simp add: prepareImageParts_def hasReferenceImages_array map_filter_loadReference)
qed

lemma save_image_succeeds:
  "write_error rt filePath = None \<Longrightarrow> \<exists>acc1 st1. save_image rt filePath blob d acc st = (Inr acc1, st1)"
  by (simp add: save_image_def fs_writeFile_def)

lemma edit_parts_succeeds:
  assumes "\<forall>path. write_error rt path = None"
  shows "\<exists>acc1 st1. edit_parts rt dir ps acc st = (Inr acc1, st1)"
proof (induction ps arbitrary: acc st)
  case Nil
  then show ?case by simp
next
  case (Cons part rest)
  show ?case
  proof (cases "inlineData part")
    case None
    then show ?thesis using Cons.IH by simp
  next
    case (Some blob)
    show ?thesis
    proof (cases "blob_data blob")
      case None
      with Some show ?thesis using Cons.IH by simp
    next
      case (Some d)
      obtain acc1 st1 where
        "save_image rt (path_join rt [dir, image_file_name rt ''edited'' (tick st)])
           blob d (add_text part acc) (st\<lparr>tick := Suc (tick st)\<rparr>) = (Inr acc1, st1)"
        using save_image_succeeds assms by blast
      with Some \<open>inlineData part = Some blob\<close> show ?thesis
        using Cons.IH by simp
    qed
  qed
qed

lemma those_map_JStr: "those (map (js_ToString \<circ> JStr) refs) = Some refs"
  by (induction refs) simp_all

lemma reference_images_text_strings:
  "\<exists>t. reference_images_text rt (JArr (map JStr refs)) = Inr t"
  by (simp add: reference_images_text_def hasReferenceImages_array those_map_JStr)

lemma edit_status_text_strings:
  "\<exists>t. edit_status_text rt (JStr p) (JStr prompt) (JArr (map JStr refs)) acc = Inr t"
proof -
  obtain t where "reference_images_text rt (JArr (map JStr refs)) = Inr t"
    using reference_images_text_strings by blast
  then show ?thesis
    by (simp add: edit_status_text_def)
qed

lemma editImage_try_calls:
  assumes "genAI st = Some client"
    and "prepareImageParts rt st imagePath prompt referenceImages = Inr imageParts"
  shows "calls (snd (editImage_try rt st imagePath prompt referenceImages)) =
         calls st @ [(client, \<lparr>model = MODEL, contents = Parts imageParts\<rparr>)]"
  using assms
  by (auto simp: editImage_try_def call_generateContent_def Let_def
      split: prod.splits sum.splits option.splits dest: edit_parts_calls)

lemma editImage_try_succeeds:
  assumes "genAI st = Some client"
    and "prepareImageParts rt st (JStr p) (JStr prompt) (JArr (map JStr refs)) = Inr imageParts"
    and "generateContent rt (length (calls st)) client
           \<lparr>model = MODEL, contents = Parts imageParts\<rparr> = Inr response"
    and "validateResponse response = Inr candidate"
    and "mkdir_error rt (getImagesDirectory rt) = None"
    and "\<forall>path. write_error rt path = None"
  shows "\<exists>result. fst (editImage_try rt st (JStr p) (JStr prompt) (JArr (map JStr refs))) = Inr result"
proof -
  obtain acc1 st1 where
    "edit_parts rt (getImagesDirectory rt) (candidate_parts candidate)
       \<lparr>textContent = [], contentItems = [], savedFiles = []\<rparr>
       (st\<lparr>calls := calls st @ [(client, \<lparr>model = MODEL, contents = Parts imageParts\<rparr>)]\<rparr>) =
     (Inr acc1, st1)"
    using edit_parts_succeeds [OF assms(6)] by blast
  moreover obtain t where
    "edit_status_text rt (JStr p) (JStr prompt) (JArr (map JStr refs)) acc1 = Inr t"
    using edit_status_text_strings by blast
  ultimately show ?thesis
    using assms(1-5)
    by (simp add: editImage_try_def call_generateContent_def)
qed

lemma callTool_edit_image:
  assumes "name request = ''edit_image''" and "ensureConfigured st"
    and "arguments request = Some args"
  shows "snd (callTool rt st request) =
           snd (editImage_try rt st (getProp args ''imagePath'') (getProp args ''prompt'')
                  (getProp args ''referenceImages''))"
    and "fst (editImage_try rt st (getProp args ''imagePath'') (getProp args ''prompt'')
                (getProp args ''referenceImages'')) = Inr result \<Longrightarrow>
         fst (callTool rt st request) = Inr result"
  using assms
  by (auto simp: callTool_def callTool_switch_def editImage_def split: prod.splits sum.splits)

lemma edit_image_skips_unreadable_references:
  assumes "name request = ''edit_image''"
    and "ensureConfigured st" and "genAI st = Some client"
    and "arguments request = Some args"
    and "getProp args ''imagePath'' = JStr p"
    and "fs_readFile rt st (JStr p) = Inr imageBuffer"
    and "getProp args ''prompt'' = JStr prompt"
    and "getProp args ''referenceImages'' = JArr (map JStr refs)"
    and "imageParts =
           InlineData (base64_encode rt imageBuffer) (getMimeType (path_extname rt) p) #
           map (\<lambda>r. InlineData (base64_encode rt (projr (fs_readFile rt st (JStr r))))
                                (getMimeType (path_extname rt) r))
               (filter (\<lambda>r. \<not> isl (fs_readFile rt st (JStr r))) refs) @
           [TextPart (JStr prompt)]"
  shows "calls (snd (callTool rt st request)) =
           calls st @ [(client, \<lparr>model = MODEL, contents = Parts imageParts\<rparr>)]"
    and "generateContent rt (length (calls st)) client
           \<lparr>model = MODEL, contents = Parts imageParts\<rparr> = Inr response \<Longrightarrow>
         validateResponse response = Inr candidate \<Longrightarrow>
         mkdir_error rt (getImagesDirectory rt) = None \<Longrightarrow>
         \<forall>path. write_error rt path = None \<Longrightarrow>
         \<exists>result. fst (callTool rt st request) = Inr result"
proof -
  have prep: "prepareImageParts rt st (JStr p) (JStr prompt) (JArr (map JStr refs)) = Inr imageParts"
    using prepareImageParts_string_references [OF assms(6)] assms(9) by simp
  have args: "getProp args ''imagePath'' = JStr p" "getProp args ''prompt'' = JStr prompt"
    "getProp args ''referenceImages'' = JArr (map JStr refs)"
    using assms by simp_all
  show "calls (snd (callTool rt st request)) =
           calls st @ [(client, \<lparr>model = MODEL, contents = Parts imageParts\<rparr>)]"
    using callTool_edit_image(1) [OF assms(1,2,4)] editImage_try_calls [OF assms(3) prep]
    by (simp add: args)
  assume "generateContent rt (length (calls st)) client
           \<lparr>model = MODEL, contents = Parts imageParts\<rparr> = Inr response"
    and "validateResponse response = Inr candidate"
    and "mkdir_error rt (getImagesDirectory rt) = None"
    and "\<forall>path. write_error rt path = None"
  then obtain result where
    "fst (editImage_try rt st (JStr p) (JStr prompt) (JArr (map JStr refs))) = Inr result"
    using editImage_try_succeeds [OF assms(3) prep] by blast
  then show "\<exists>result. fst (callTool rt st request) = Inr result"
    using callTool_edit_image(2) [OF assms(1,2,4)] by (simp add: args)
qed

text \<open>
  C7: for \<open>edit_image\<close>, and for \<open>continue_editing\<close> on the last image, with a readable
  main image and a list of reference paths: the generation client is called, and the
  request carries the main image, then the reference images that could be read, in
  their order, then the prompt; the paths that could not be read are left out. When the
  service answers with an accepted response and the output directory and files can be
  written, the call succeeds.
\<close>

theorem unreadable_references_are_skipped:
  assumes "ensureConfigured st" and "genAI st = Some client"
    and "arguments request = Some args"
    and "name request = ''edit_image'' \<and> getProp args ''imagePath'' = JStr p \<or>
         name request = ''continue_editing'' \<and> last_image st = Some p"
    and "fs_readFile rt st (JStr p) = Inr imageBuffer"
    and "getProp args ''prompt'' = JStr prompt"
    and "getProp args ''referenceImages'' = JArr (map JStr refs)"
    and "imageParts =
           InlineData (base64_encode rt imageBuffer) (getMimeType (path_extname rt) p) #
           map (\<lambda>r. InlineData (base64_encode rt (projr (fs_readFile rt st (JStr r))))
                                (getMimeType (path_extname rt) r))
               (filter (\<lambda>r. \<not> isl (fs_readFile rt st (JStr r))) refs) @
           [TextPart (JStr prompt)]"
  shows "calls (snd (callTool rt st request)) =
           calls st @ [(client, \<lparr>model = MODEL, contents = Parts imageParts\<rparr>)] \<and>
         (\<forall>response candidate.
            generateContent rt (length (calls st)) client
              \<lparr>model = MODEL, contents = Parts imageParts\<rparr> = Inr response \<and>
            validateResponse response = Inr candidate \<and>
            mkdir_error rt (getImagesDirectory rt) = None \<and>
            (\<forall>path. write_error rt path = None) \<longrightarrow>
            (\<exists>result. fst (callTool rt st request) = Inr result))"
proof -
  let ?explicit = "\<lparr>name = ''edit_image'', arguments = Some ((''imagePath'', JStr p) # args)\<rparr>"
  have "fs_access st p"
    using assms(5) by (auto simp: fs_readFile_def fs_access_def split: option.splits)
  with assms(3,4) have same: "callTool rt st request = callTool rt st ?explicit"
  proof (elim disjE conjE)
    assume "name request = ''edit_image''" and "getProp args ''imagePath'' = JStr p"
    with assms(3) show ?thesis
      by (simp add: callTool_def callTool_switch_def editImage_def getProp_Cons)
  next
    assume "name request = ''continue_editing''" and "last_image st = Some p"
    with assms(3) \<open>fs_access st p\<close> show ?thesis
      by (simp add: callTool_def callTool_switch_def continueEditing_as_editImage)
  qed
  have n: "name ?explicit = ''edit_image''"
    and a: "arguments ?explicit = Some ((''imagePath'', JStr p) # args)"
    and i: "getProp ((''imagePath'', JStr p) # args) ''imagePath'' = JStr p"
    and q: "getProp ((''imagePath'', JStr p) # args) ''prompt'' = JStr prompt"
    and r: "getProp ((''imagePath'', JStr p) # args) ''referenceImages'' = JArr (map JStr refs)"
    using assms(6,7) by (simp_all add: getProp_Cons)
  note edit = edit_image_skips_unreadable_references [OF n assms(1,2) a i assms(5) q r assms(8)]
  show ?thesis
    unfolding same using edit by blast
qed

theorem unreadable_references_are_skipped_witness:
  "calls (snd (callTool stub_runtime configured_state
     \<lparr>name = ''edit_image'',
      arguments = Some [(''imagePath'', JStr ''/work/cat.png''),
                        (''prompt'', JStr ''add a hat''),
                        (''referenceImages'',
                           JArr [JStr ''/work/missing.png'', JStr ''/work/style.webp''])]\<rparr>)) =
     [(stub_client,
       \<lparr>model = MODEL,
        contents = Parts [InlineData ''bytes of the cat'' ''image/png'',
                          InlineData ''bytes of the style'' ''image/webp'',
                          TextPart (JStr ''add a hat'')]\<rparr>)] \<and>
   (\<exists>result. fst (callTool stub_runtime configured_state
     \<lparr>name = ''edit_image'',
      arguments = Some [(''imagePath'', JStr ''/work/cat.png''),
                        (''prompt'', JStr ''add a hat''),
                        (''referenceImages'',
                           JArr [JStr ''/work/missing.png'', JStr ''/work/style.webp''])]\<rparr>) =
      Inr result)"
proof -
  let ?args = "[(''imagePath'', JStr ''/work/cat.png''),
                (''prompt'', JStr ''add a hat''),
                (''referenceImages'', JArr [JStr ''/work/missing.png'', JStr ''/work/style.webp''])]"
  let ?r = "\<lparr>name = ''edit_image'', arguments = Some ?args\<rparr>"
  let ?parts = "[InlineData ''bytes of the cat'' ''image/png'',
                 InlineData ''bytes of the style'' ''image/webp'',
                 TextPart (JStr ''add a hat'')]"
  have a: "arguments ?r = Some ?args"
    by simp
  have n: "name ?r = ''edit_image'' \<and> getProp ?args ''imagePath'' = JStr ''/work/cat.png'' \<or>
           name ?r = ''continue_editing'' \<and> last_image configured_state = Some ''/work/cat.png''"
    by (simp add: getProp_def)
  have q: "getProp ?args ''prompt'' = JStr ''add a hat''"
    and r: "getProp ?args ''referenceImages'' =
            JArr (map JStr [''/work/missing.png'', ''/work/style.webp''])"
    by (simp_all add: getProp_def)
  have p: "?parts =
           InlineData (base64_encode stub_runtime ''bytes of the cat'')
             (getMimeType (path_extname stub_runtime) ''/work/cat.png'') #
           map (\<lambda>r. InlineData
                      (base64_encode stub_runtime (projr (fs_readFile stub_runtime configured_state (JStr r))))
                      (getMimeType (path_extname stub_runtime) r))
               (filter (\<lambda>r. \<not> isl (fs_readFile stub_runtime configured_state (JStr r)))
                  [''/work/missing.png'', ''/work/style.webp'']) @
           [TextPart (JStr ''add a hat'')]"
    by (simp add: edit_request_facts stub_fields mime_cat mime_style)
  have ok: "generateContent stub_runtime (length (calls configured_state)) stub_client
              \<lparr>model = MODEL, contents = Parts ?parts\<rparr> = Inr stub_response \<and>
            validateResponse stub_response = Inr (hd (the (candidates stub_response))) \<and>
            mkdir_error stub_runtime (getImagesDirectory stub_runtime) = None \<and>
            (\<forall>path. write_error stub_runtime path = None)"
    by (simp add: stub_fields stub_response_accepted)
  show ?thesis
    using ok
      unreadable_references_are_skipped [OF configured_state_facts(1,2) a n
        edit_request_facts(1) q r p]
    by (simp add: configured_state_facts(3))
qed

end
